theory Spec2Isabelle
  imports Main "HOL-Library.AList"
begin

section \<open>Interval timers of the JavaScript runtime\<close>

text \<open>
  \<^verbatim>\<open>setInterval\<close> hands out a fresh handle and registers a recurring callback;
  \<^verbatim>\<open>clearInterval\<close> removes the registration of one handle. The payload of a timer is what
  its callback closes over (the monitored URL on the server, the task id in the browser).
  A handle is always truthy in JavaScript (a \<^verbatim>\<open>Timeout\<close> object in Node, a positive number in
  the browser), so \<^verbatim>\<open>if (interval)\<close> is the test "a handle is stored".
\<close>

record 'a timers =
  active :: "(nat \<times> 'a) list"
  next_handle :: nat

definition no_timers :: "'a timers" where
  "no_timers = \<lparr>active = [], next_handle = 1\<rparr>"

definition setInterval :: "'a timers \<Rightarrow> 'a \<Rightarrow> nat \<times> 'a timers" where
  "setInterval tm x =
     (next_handle tm,
      \<lparr>active = active tm @ [(next_handle tm, x)], next_handle = Suc (next_handle tm)\<rparr>)"

definition clearInterval :: "'a timers \<Rightarrow> nat \<Rightarrow> 'a timers" where
  "clearInterval tm h = tm\<lparr>active := filter (\<lambda>p. fst p \<noteq> h) (active tm)\<rparr>"

definition timers_for :: "'a timers \<Rightarrow> 'a \<Rightarrow> nat list" where
  "timers_for tm x = map fst (filter (\<lambda>p. snd p = x) (active tm))"

section \<open>VoiceCleanse/server/apiMonitor.ts\<close>

text \<open>
  Dates are milliseconds since the epoch (\<^verbatim>\<open>Date.getTime()\<close>), an \<^typ>\<open>int\<close>. What the
  outside world answers (the result of \<^verbatim>\<open>fetch\<close>, the clock) is an argument. Console
  logging is left out.
\<close>

type_synonym url = string

datatype js_error = JsError (err_name: string) (err_message: string)

record ApiHealthStatus =
  isHealthy :: bool
  lastCheck :: int
  lastError :: "js_error option"
  consecutiveFailures :: nat
  uptime :: nat

text \<open>The result of \<^verbatim>\<open>await fetch(healthUrl, ...)\<close>: a response with its HTTP status, or a
  thrown error (network failure, or the abort after \<^verbatim>\<open>TIMEOUT_MS\<close>).\<close>

datatype probe_outcome = Responded nat | Threw js_error

text \<open>What the monitor does to the outside: the GET it issues and the two calls into the
  e-mail service. Those calls do not throw (\<open>sendNotification\<close> catches the errors of its
  transport), so the \<^verbatim>\<open>catch\<close> of \<open>checkApiHealth\<close> only sees the errors of \<^verbatim>\<open>fetch\<close>.\<close>

datatype monitor_effect =
    Fetch url
  | NotifyApiRecovered url
  | NotifyApiConnectionError url js_error nat

text \<open>
  The two \<^verbatim>\<open>Map\<close>s of the class. The status map holds references to status objects, which a
  probe mutates in place: \<open>objects\<close> is the store of the objects created so far, by address,
  and \<open>healthStatus\<close> maps a URL to the address of its current object. The timer handles are
  also iterated over (by \<open>cleanup\<close>), so they are kept as an association list in insertion
  order, as a JavaScript \<^verbatim>\<open>Map\<close> does.
\<close>

record ApiMonitor =
  healthStatus :: "url \<rightharpoonup> nat"
  objects :: "nat \<rightharpoonup> ApiHealthStatus"
  next_object :: nat
  monitoringIntervals :: "(url \<times> nat) list"
  runtime :: "url timers"

definition CHECK_INTERVAL_MS :: int where
  "CHECK_INTERVAL_MS = 60 * 60 * 1000"

definition MAX_RETRIES :: nat where
  "MAX_RETRIES = 1"

definition TIMEOUT_MS :: int where
  "TIMEOUT_MS = 10000"

definition new_ApiMonitor :: ApiMonitor where
  "new_ApiMonitor =
     \<lparr>healthStatus = Map.empty, objects = Map.empty, next_object = 0,
      monitoringIntervals = [], runtime = no_timers\<rparr>"

text \<open>Decimal rendering of a number inside a template string (\<^verbatim>\<open>`HTTP ${response.status}`\<close>).\<close>

definition digit_char :: "nat \<Rightarrow> char" where
  "digit_char d = ''0123456789'' ! d"

fun show_nat :: "nat \<Rightarrow> string" where
  "show_nat n = (if n < 10 then [digit_char n] else show_nat (n div 10) @ [digit_char (n mod 10)])"

declare show_nat.simps [simp del]

definition response_ok :: "nat \<Rightarrow> bool" where
  "response_ok code = (200 \<le> code \<and> code \<le> 299)"

definition stopMonitoring :: "ApiMonitor \<Rightarrow> url \<Rightarrow> ApiMonitor" where
  "stopMonitoring m apiUrl =
     (case map_of (monitoringIntervals m) apiUrl of
        None \<Rightarrow> m
      | Some interval \<Rightarrow>
          m\<lparr>runtime := clearInterval (runtime m) interval,
            monitoringIntervals := AList.delete apiUrl (monitoringIntervals m)\<rparr>)"

text \<open>
  \<^verbatim>\<open>startMonitoring\<close> up to its return: the old timer is stopped, a new status object is
  created and stored under the URL, one probe is launched (not awaited) and the recurring
  timer is registered. The launched probe has read the new object; it completes later, like
  the probe of a timer tick.
\<close>

definition startMonitoring :: "ApiMonitor \<Rightarrow> url \<Rightarrow> int \<Rightarrow> ApiMonitor" where
  "startMonitoring m apiUrl now =
     (let m1 = stopMonitoring m apiUrl;
          ref = next_object m1;
          m2 = m1\<lparr>objects := (objects m1)(ref \<mapsto>
                     \<lparr>isHealthy = False, lastCheck = now, lastError = None,
                      consecutiveFailures = 0, uptime = 100\<rparr>),
                  next_object := Suc ref,
                  healthStatus := (healthStatus m1)(apiUrl \<mapsto> ref)\<rparr>;
          (interval, tm) = setInterval (runtime m2) apiUrl
      in m2\<lparr>runtime := tm,
            monitoringIntervals := AList.update apiUrl interval (monitoringIntervals m2)\<rparr>)"

definition handleHealthyResponse ::
  "url \<Rightarrow> ApiHealthStatus \<Rightarrow> int \<Rightarrow> ApiHealthStatus \<times> monitor_effect list" where
  "handleHealthyResponse apiUrl status now =
     (let wasUnhealthy = \<not> isHealthy status;
          status' = status\<lparr>isHealthy := True, lastCheck := now,
                           consecutiveFailures := 0, lastError := None\<rparr>
      in (status', if wasUnhealthy \<and> lastCheck status' > 0 then [NotifyApiRecovered apiUrl] else []))"

definition handleUnhealthyResponse ::
  "url \<Rightarrow> ApiHealthStatus \<Rightarrow> js_error \<Rightarrow> int \<Rightarrow> ApiHealthStatus \<times> monitor_effect list" where
  "handleUnhealthyResponse apiUrl status err now =
     (let wasHealthy = isHealthy status;
          status' = status\<lparr>isHealthy := False, lastCheck := now,
                           consecutiveFailures := consecutiveFailures status + 1,
                           lastError := Some err\<rparr>
      in (status',
          if wasHealthy \<and> consecutiveFailures status' \<ge> MAX_RETRIES
          then [NotifyApiConnectionError apiUrl err (consecutiveFailures status')] else []))"

text \<open>
  \<open>checkApiHealth\<close> is two steps with an \<^verbatim>\<open>await\<close> between them. The first reads the status
  object of the URL from the map (and returns if there is none) and issues the GET. The
  second, \<open>checkApiHealth_resumed\<close>, runs when \<^verbatim>\<open>fetch\<close> has settled: it hands the object read
  by the first step, at address \<open>ref\<close>, to one of the two handlers, which mutates it. Other
  calls may run between the two steps; if \<open>startMonitoring\<close> has put a new object under the
  URL by then, the probe still works on the old one.
\<close>

definition checkApiHealth_resumed ::
  "ApiMonitor \<Rightarrow> url \<Rightarrow> nat \<Rightarrow> probe_outcome \<Rightarrow> int \<Rightarrow> ApiMonitor \<times> monitor_effect list" where
  "checkApiHealth_resumed m apiUrl ref outcome now =
     (case objects m ref of
        None \<Rightarrow> (m, [])
      | Some status \<Rightarrow>
          (let (status', effs) =
                 (case outcome of
                    Responded code \<Rightarrow>
                      if response_ok code then handleHealthyResponse apiUrl status now
                      else handleUnhealthyResponse apiUrl status
                             (JsError ''Error'' (''HTTP '' @ show_nat code)) now
                  | Threw err \<Rightarrow> handleUnhealthyResponse apiUrl status err now)
           in (m\<lparr>objects := (objects m)(ref \<mapsto> status')\<rparr>, effs)))"

text \<open>\<open>getHealthStatus\<close> returns the object now stored under the URL; in the model, its
  present content. (A reference always has its object in the states that the constructor and
  the methods produce.)\<close>

definition getHealthStatus :: "ApiMonitor \<Rightarrow> url \<Rightarrow> ApiHealthStatus option" where
  "getHealthStatus m apiUrl =
     (case healthStatus m apiUrl of None \<Rightarrow> None | Some ref \<Rightarrow> objects m ref)"

text \<open>A whole probe with nothing else running between its two steps.\<close>

definition checkApiHealth ::
  "ApiMonitor \<Rightarrow> url \<Rightarrow> probe_outcome \<Rightarrow> int \<Rightarrow> ApiMonitor \<times> monitor_effect list" where
  "checkApiHealth m apiUrl outcome now =
     (case healthStatus m apiUrl of
        None \<Rightarrow> (m, [])
      | Some ref \<Rightarrow>
          (case objects m ref of
             None \<Rightarrow> (m, [])
           | Some status \<Rightarrow>
               (let (m', effs) = checkApiHealth_resumed m apiUrl ref outcome now
                in (m', Fetch (apiUrl @ ''/health'') # effs))))"


definition cleanup :: "ApiMonitor \<Rightarrow> ApiMonitor" where
  "cleanup m =
     m\<lparr>runtime := foldl clearInterval (runtime m) (map snd (monitoringIntervals m)),
       monitoringIntervals := []\<rparr>"

text \<open>A probe outcome is a success exactly when a response arrived and \<^verbatim>\<open>response.ok\<close> holds.\<close>

fun probe_succeeds :: "probe_outcome \<Rightarrow> bool" where
  "probe_succeeds (Responded code) = response_ok code"
| "probe_succeeds (Threw err) = False"

text \<open>The error object a failed probe hands to \<open>handleUnhealthyResponse\<close>.\<close>

fun probe_error :: "probe_outcome \<Rightarrow> js_error" where
  "probe_error (Responded code) = JsError ''Error'' (''HTTP '' @ show_nat code)"
| "probe_error (Threw err) = err"

text \<open>The calls into the e-mail service among the effects of a step.\<close>

fun is_notification :: "monitor_effect \<Rightarrow> bool" where
  "is_notification (Fetch u) = False"
| "is_notification (NotifyApiRecovered u) = True"
| "is_notification (NotifyApiConnectionError u e n) = True"

text \<open>A sequence of probes of one URL, each with the clock reading at its completion; the
  result lists the notifications of every probe in turn.\<close>

fun probes ::
  "ApiMonitor \<Rightarrow> url \<Rightarrow> (probe_outcome \<times> int) list \<Rightarrow> ApiMonitor \<times> monitor_effect list list" where
  "probes m apiUrl [] = (m, [])"
| "probes m apiUrl ((outcome, now) # rest) =
     (let (m', effs) = checkApiHealth m apiUrl outcome now;
          (m'', effss) = probes m' apiUrl rest
      in (m'', filter is_notification effs # effss))"

text \<open>
  The events that reach the singleton monitor: the routes call \<open>startMonitoring\<close>, \<open>cleanup\<close>
  and \<open>checkNow\<close>; \<open>stopMonitoring\<close> is public as well; a probe runs as a whole (that of a
  timer tick or of \<open>checkNow\<close>), or a probe launched further back, which has read the object at
  some address, is resumed. The monitor states that can arise are the ones \<open>monitor_run\<close>
  produces from the freshly constructed object.
\<close>

datatype monitor_event =
    StartMonitoring url int
  | StopMonitoring url
  | CheckApiHealth url probe_outcome int
  | Resumed url nat probe_outcome int
  | Cleanup

fun monitor_step :: "ApiMonitor \<Rightarrow> monitor_event \<Rightarrow> ApiMonitor" where
  "monitor_step m (StartMonitoring apiUrl now) = startMonitoring m apiUrl now"
| "monitor_step m (StopMonitoring apiUrl) = stopMonitoring m apiUrl"
| "monitor_step m (CheckApiHealth apiUrl outcome now) = fst (checkApiHealth m apiUrl outcome now)"
| "monitor_step m (Resumed apiUrl ref outcome now) =
     fst (checkApiHealth_resumed m apiUrl ref outcome now)"
| "monitor_step m Cleanup = cleanup m"

definition monitor_run :: "monitor_event list \<Rightarrow> ApiMonitor" where
  "monitor_run evs = foldl monitor_step new_ApiMonitor evs"

text \<open>Every active timer is the one stored in \<open>monitoringIntervals\<close> under its own URL.\<close>

definition timers_registered :: "ApiMonitor \<Rightarrow> bool" where
  "timers_registered m =
     (\<forall>p \<in> set (active (runtime m)). map_of (monitoringIntervals m) (snd p) = Some (fst p))"

section \<open>VoiceCleanse/server/emailService.ts\<close>

text \<open>
  The Gmail transport. A notification carries a title, a message, a severity and optional
  details; the message and the details only feed \<^verbatim>\<open>formatEmailContent\<close>, the HTML body of the
  mail, and are left out together with it. Strings are byte strings: a title written in
  Chinese in the source is its UTF-8 encoding here, which keeps equality of strings.
  Whether \<^verbatim>\<open>transporter.sendMail\<close> resolves or throws, and what \<^verbatim>\<open>Date.now()\<close> reads, are
  arguments.
\<close>

datatype severity = Info | Warning | Error

fun severity_text :: "severity \<Rightarrow> string" where
  "severity_text Info = ''info''"
| "severity_text Warning = ''warning''"
| "severity_text Error = ''error''"

record EmailNotification =
  title :: string
  severity :: severity

text \<open>\<open>transporter\<close> is \<open>False\<close> for \<^verbatim>\<open>null\<close> (the service is not configured).\<close>

record EmailService =
  transporter :: bool
  lastNotificationTime :: "string \<rightharpoonup> int"

datatype mail_effect = SendMail EmailNotification

definition COOLDOWN_MINUTES :: int where
  "COOLDOWN_MINUTES = 180"

text \<open>The constructor: the transport exists when both environment variables are set and
  non-empty (\<^verbatim>\<open>createTransport\<close> only builds an object and is taken not to throw).\<close>

definition new_EmailService :: "string option \<Rightarrow> string option \<Rightarrow> EmailService" where
  "new_EmailService gmailEmail gmailAppPassword =
     \<lparr>transporter = (gmailEmail \<noteq> None \<and> gmailEmail \<noteq> Some [] \<and>
                     gmailAppPassword \<noteq> None \<and> gmailAppPassword \<noteq> Some []),
      lastNotificationTime = Map.empty\<rparr>"

text \<open>The value of \<^verbatim>\<open>notificationKey\<close> in \<open>sendNotification\<close>,
  \<^verbatim>\<open>`${notification.severity}_${notification.title}_${apiUrl || 'unknown'}`\<close>: an absent or
  empty URL reads \<^verbatim>\<open>unknown\<close>.\<close>

definition cooldown_key :: "EmailNotification \<Rightarrow> string option \<Rightarrow> string" where
  "cooldown_key notification apiUrl =
     severity_text (severity notification) @ ''_'' @ title notification @ ''_'' @
       (case apiUrl of None \<Rightarrow> ''unknown'' | Some u \<Rightarrow> if u = [] then ''unknown'' else u)"

text \<open>\<^verbatim>\<open>if (!lastTime) return false\<close> holds for a missing entry and for the timestamp 0.\<close>

definition isInCooldown :: "EmailService \<Rightarrow> string \<Rightarrow> int \<Rightarrow> bool" where
  "isInCooldown es key now =
     (case lastNotificationTime es key of
        None \<Rightarrow> False
      | Some lastTime \<Rightarrow>
          if lastTime = 0 then False
          else (let cooldownMs = COOLDOWN_MINUTES * 60 * 1000 in now - lastTime < cooldownMs))"

text \<open>
  \<open>sendNotification es notification apiUrl now mailOk sentAt\<close>: \<open>now\<close> is the clock read by
  \<open>isInCooldown\<close>, \<open>mailOk\<close> tells whether \<^verbatim>\<open>sendMail\<close> resolves, \<open>sentAt\<close> is the clock read
  after it has. The result is the service, the returned boolean and the mails handed to the
  transport.
\<close>

definition sendNotification ::
  "EmailService \<Rightarrow> EmailNotification \<Rightarrow> string option \<Rightarrow> int \<Rightarrow> bool \<Rightarrow> int
     \<Rightarrow> EmailService \<times> bool \<times> mail_effect list" where
  "sendNotification es notification apiUrl now mailOk sentAt =
     (if \<not> transporter es then (es, False, [])
      else
        (let notificationKey = cooldown_key notification apiUrl
         in if isInCooldown es notificationKey now then (es, False, [])
            else if mailOk
            then (es\<lparr>lastNotificationTime := (lastNotificationTime es)(notificationKey \<mapsto> sentAt)\<rparr>,
                  True, [SendMail notification])
            else (es, False, [SendMail notification])))"

definition title_connection_error :: string where
  "title_connection_error =
     [CHR ''A'', CHR ''P'', CHR ''I'', CHR 0xE9, CHR 0x80, CHR 0xA3, CHR 0xE7, CHR 0xB7, CHR 0x9A,
      CHR 0xE5, CHR 0xA4, CHR 0xB1, CHR 0xE6, CHR 0x95, CHR 0x97]"

definition title_recovered :: string where
  "title_recovered =
     [CHR ''A'', CHR ''P'', CHR ''I'', CHR 0xE9, CHR 0x80, CHR 0xA3, CHR 0xE7, CHR 0xB7, CHR 0x9A,
      CHR 0xE5, CHR 0xB7, CHR 0xB2, CHR 0xE6, CHR 0x81, CHR 0xA2, CHR 0xE5, CHR 0xBE, CHR 0xA9]"

definition title_test :: string where
  "title_test =
     [CHR 0xE7, CHR 0xB3, CHR 0xBB, CHR 0xE7, CHR 0xB5, CHR 0xB1, CHR 0xE6, CHR 0xB8, CHR 0xAC,
      CHR 0xE8, CHR 0xA9, CHR 0xA6]"

definition notifyApiConnectionError ::
  "EmailService \<Rightarrow> url \<Rightarrow> js_error \<Rightarrow> nat \<Rightarrow> int \<Rightarrow> bool \<Rightarrow> int
     \<Rightarrow> EmailService \<times> bool \<times> mail_effect list" where
  "notifyApiConnectionError es apiUrl err retryCount now mailOk sentAt =
     sendNotification es \<lparr>title = title_connection_error, severity = Error\<rparr> (Some apiUrl)
       now mailOk sentAt"

definition notifyApiRecovered ::
  "EmailService \<Rightarrow> url \<Rightarrow> int \<Rightarrow> bool \<Rightarrow> int \<Rightarrow> EmailService \<times> bool \<times> mail_effect list" where
  "notifyApiRecovered es apiUrl now mailOk sentAt =
     sendNotification es \<lparr>title = title_recovered, severity = Info\<rparr> (Some apiUrl)
       now mailOk sentAt"

definition testEmail ::
  "EmailService \<Rightarrow> int \<Rightarrow> bool \<Rightarrow> int \<Rightarrow> EmailService \<times> bool \<times> mail_effect list" where
  "testEmail es now mailOk sentAt =
     sendNotification es \<lparr>title = title_test, severity = Info\<rparr> None now mailOk sentAt"

text \<open>
  A history of calls of \<open>sendNotification\<close>: each call with its message, its URL and what the
  outside world answers during it.
\<close>

record send_call =
  sc_notification :: EmailNotification
  sc_apiUrl :: "string option"
  sc_now :: int
  sc_mailOk :: bool
  sc_sentAt :: int

definition send :: "EmailService \<Rightarrow> send_call \<Rightarrow> EmailService \<times> bool \<times> mail_effect list" where
  "send es c =
     sendNotification es (sc_notification c) (sc_apiUrl c) (sc_now c) (sc_mailOk c) (sc_sentAt c)"

definition call_key :: "send_call \<Rightarrow> string" where
  "call_key c = cooldown_key (sc_notification c) (sc_apiUrl c)"

fun email_run :: "EmailService \<Rightarrow> send_call list \<Rightarrow> EmailService" where
  "email_run es [] = es"
| "email_run es (c # cs) = email_run (fst (send es c)) cs"

text \<open>The successful deliveries of a history, in order: the key and the recorded time of
  every call that returned \<^verbatim>\<open>true\<close>.\<close>

fun deliveries :: "EmailService \<Rightarrow> send_call list \<Rightarrow> (string \<times> int) list" where
  "deliveries es [] = []"
| "deliveries es (c # cs) =
     (if fst (snd (send es c)) then [(call_key c, sc_sentAt c)] else [])
       @ deliveries (fst (send es c)) cs"

text \<open>"A message with the same composite key was successfully sent within the cooldown
  window", read off the deliveries.\<close>

definition sent_within_cooldown :: "(string \<times> int) list \<Rightarrow> string \<Rightarrow> int \<Rightarrow> bool" where
  "sent_within_cooldown ds key now =
     list_ex (\<lambda>d. fst d = key \<and> now - snd d < COOLDOWN_MINUTES * 60 * 1000) ds"

text \<open>The clock of a history: readings after \<open>t\<close>, never going back.\<close>

fun clock_ok :: "int \<Rightarrow> send_call list \<Rightarrow> bool" where
  "clock_ok t [] = True"
| "clock_ok t (c # cs) = (t \<le> sc_now c \<and> sc_now c \<le> sc_sentAt c \<and> clock_ok (sc_sentAt c) cs)"

text \<open>Auxiliary for the proofs about histories: the clock reading at the end of a history.\<close>

fun last_time :: "int \<Rightarrow> send_call list \<Rightarrow> int" where
  "last_time t [] = t"
| "last_time t (c # cs) = last_time (sc_sentAt c) cs"

text \<open>
  What ties the stored timestamps to the deliveries \<open>ds\<close> made so far, all before \<open>T\<close>: every
  delivery has a stored timestamp for its key that is at least as late, and every stored
  timestamp is the time of a delivery with that key.
\<close>

definition cooldown_inv :: "EmailService \<Rightarrow> (string \<times> int) list \<Rightarrow> int \<Rightarrow> bool" where
  "cooldown_inv es ds T =
     (transporter es \<and> (\<forall>d \<in> set ds. 0 < snd d \<and> snd d \<le> T) \<and>
      (\<forall>d \<in> set ds. \<exists>t. lastNotificationTime es (fst d) = Some t \<and> snd d \<le> t) \<and>
      (\<forall>k t. lastNotificationTime es k = Some t \<longrightarrow> (k, t) \<in> set ds))"

section \<open>VoiceCleanse/server/notificationService.ts: class NotificationService\<close>

text \<open>
  The Discord transport, a class of its own with its own cooldown table. Its methods carry
  the names of the e-mail service's; they are prefixed here with the class name. The
  description, the timestamp and the details of a message only feed the webhook payload and
  are left out.
\<close>

record NotificationMessage =
  nm_title :: string
  nm_severity :: severity

record NotificationService =
  discordWebhookUrl :: "string option"
  ns_lastNotificationTime :: "string \<rightharpoonup> int"

datatype discord_effect = PostWebhook string NotificationMessage

definition NotificationService_COOLDOWN_MINUTES :: int where
  "NotificationService_COOLDOWN_MINUTES = 15"

text \<open>\<^verbatim>\<open>process.env.DISCORD_WEBHOOK_URL || null\<close>\<close>

definition new_NotificationService :: "string option \<Rightarrow> NotificationService" where
  "new_NotificationService env =
     \<lparr>discordWebhookUrl = (case env of None \<Rightarrow> None | Some w \<Rightarrow> if w = [] then None else Some w),
      ns_lastNotificationTime = Map.empty\<rparr>"

definition NotificationService_isInCooldown :: "NotificationService \<Rightarrow> string \<Rightarrow> int \<Rightarrow> bool" where
  "NotificationService_isInCooldown ns key now =
     (case ns_lastNotificationTime ns key of
        None \<Rightarrow> False
      | Some lastTime \<Rightarrow>
          if lastTime = 0 then False
          else (let cooldownMs = NotificationService_COOLDOWN_MINUTES * 60 * 1000
                in now - lastTime < cooldownMs))"

text \<open>\<open>discordOk\<close> tells whether the POST to the webhook resolves with an ok response.\<close>

definition sendDiscordNotification ::
  "NotificationService \<Rightarrow> NotificationMessage \<Rightarrow> bool \<Rightarrow> bool \<times> discord_effect list" where
  "sendDiscordNotification ns message discordOk =
     (case discordWebhookUrl ns of
        None \<Rightarrow> (False, [])
      | Some w \<Rightarrow> if w = [] then (False, []) else (discordOk, [PostWebhook w message]))"

definition NotificationService_sendNotification ::
  "NotificationService \<Rightarrow> NotificationMessage \<Rightarrow> int \<Rightarrow> bool \<Rightarrow> int
     \<Rightarrow> NotificationService \<times> bool \<times> discord_effect list" where
  "NotificationService_sendNotification ns message now discordOk sentAt =
     (let notificationKey = severity_text (nm_severity message) @ ''_'' @ nm_title message
      in if NotificationService_isInCooldown ns notificationKey now then (ns, False, [])
         else
           (let (success, effs) =
                  (case discordWebhookUrl ns of
                     None \<Rightarrow> (False, [])
                   | Some w \<Rightarrow> if w = [] then (False, [])
                              else sendDiscordNotification ns message discordOk)
            in ((if success
                 then ns\<lparr>ns_lastNotificationTime := (ns_lastNotificationTime ns)(notificationKey \<mapsto> sentAt)\<rparr>
                 else ns),
                success, effs)))"

definition NotificationService_notifyApiConnectionError ::
  "NotificationService \<Rightarrow> url \<Rightarrow> js_error \<Rightarrow> nat \<Rightarrow> int \<Rightarrow> bool \<Rightarrow> int
     \<Rightarrow> NotificationService \<times> bool \<times> discord_effect list" where
  "NotificationService_notifyApiConnectionError ns apiUrl err retryCount now discordOk sentAt =
     NotificationService_sendNotification ns
       \<lparr>nm_title = title_connection_error, nm_severity = Error\<rparr> now discordOk sentAt"

definition NotificationService_notifyApiRecovered ::
  "NotificationService \<Rightarrow> url \<Rightarrow> int \<Rightarrow> bool \<Rightarrow> int
     \<Rightarrow> NotificationService \<times> bool \<times> discord_effect list" where
  "NotificationService_notifyApiRecovered ns apiUrl now discordOk sentAt =
     NotificationService_sendNotification ns
       \<lparr>nm_title = title_recovered, nm_severity = Info\<rparr> now discordOk sentAt"

section \<open>The shared schemas and class MemStorage\<close>

text \<open>
  The schemas are the file \<^verbatim>\<open>unnamed/part_001\<close> of the sources; the storage class follows the
  Discord service in \<^verbatim>\<open>VoiceCleanse/server/notificationService.ts\<close> (lines 190 to 240).
  The fields of the configuration record carry the prefix \<open>cfg_\<close> (the source has \<^verbatim>\<open>id\<close>,
  \<^verbatim>\<open>apiUrl\<close>, \<^verbatim>\<open>isActive\<close>, \<^verbatim>\<open>description\<close>, \<^verbatim>\<open>updatedAt\<close>, \<^verbatim>\<open>updatedBy\<close>). \<^verbatim>\<open>updatedAt\<close> is the
  ISO rendering of a date in the source and the date itself, in milliseconds, here.
  \<^verbatim>\<open>randomUUID()\<close> is an argument.
\<close>

record ApiConfig =
  cfg_id :: string
  cfg_apiUrl :: string
  cfg_isActive :: bool
  cfg_description :: "string option"
  cfg_updatedAt :: int
  cfg_updatedBy :: "string option"

text \<open>\<^verbatim>\<open>Omit<ApiConfig, 'id' | 'updatedAt'>\<close>\<close>

record ApiConfigInput =
  in_apiUrl :: string
  in_isActive :: bool
  in_description :: "string option"
  in_updatedBy :: "string option"

record MemStorage =
  apiConfig :: "ApiConfig option"

definition default_description :: string where
  "default_description =
     [CHR 0xE9, CHR 0xA0, CHR 0x90, CHR 0xE8, CHR 0xA8, CHR 0xAD, CHR 0xE9, CHR 0x9F, CHR 0xB3,
      CHR 0xE9, CHR 0xA0, CHR 0xBB, CHR 0xE8, CHR 0x99, CHR 0x95, CHR 0xE7, CHR 0x90, CHR 0x86,
      CHR ''A'', CHR ''P'', CHR ''I'', CHR 0xE6, CHR 0x9C, CHR 0x8D, CHR 0xE5, CHR 0x8B, CHR 0x99]"

definition new_MemStorage :: "string \<Rightarrow> int \<Rightarrow> MemStorage" where
  "new_MemStorage uuid now =
     \<lparr>apiConfig = Some \<lparr>cfg_id = uuid, cfg_apiUrl = ''https://047d79d2429a.ngrok-free.app'',
                         cfg_isActive = True, cfg_description = Some default_description,
                         cfg_updatedAt = now, cfg_updatedBy = Some ''system''\<rparr>\<rparr>"

definition getApiConfig :: "MemStorage \<Rightarrow> ApiConfig option" where
  "getApiConfig st = apiConfig st"

text \<open>\<^verbatim>\<open>{...config, id: this.apiConfig?.id || randomUUID(), updatedAt: new Date().toISOString()}\<close>\<close>

definition setApiConfig ::
  "MemStorage \<Rightarrow> ApiConfigInput \<Rightarrow> int \<Rightarrow> string \<Rightarrow> MemStorage \<times> ApiConfig" where
  "setApiConfig st config now uuid =
     (let c = \<lparr>cfg_id = (case apiConfig st of
                           None \<Rightarrow> uuid
                         | Some old \<Rightarrow> if cfg_id old = [] then uuid else cfg_id old),
               cfg_apiUrl = in_apiUrl config, cfg_isActive = in_isActive config,
               cfg_description = in_description config, cfg_updatedAt = now,
               cfg_updatedBy = in_updatedBy config\<rparr>
      in (st\<lparr>apiConfig := Some c\<rparr>, c))"

text \<open>\<^verbatim>\<open>process.env.ADMIN_PASSWORD || 'fculab224'\<close>\<close>

definition ADMIN_PASSWORD :: "string option \<Rightarrow> string" where
  "ADMIN_PASSWORD env = (case env of None \<Rightarrow> ''fculab224'' | Some p \<Rightarrow> if p = [] then ''fculab224'' else p)"

text \<open>
  The body of a request after JSON parsing: each of the three fields is absent, a string, or
  some other JSON value.
\<close>

datatype jvalue = JString string | JOther

record config_body =
  body_apiUrl :: "jvalue option"
  body_description :: "jvalue option"
  body_adminPassword :: "jvalue option"

record UpdateApiConfigRequest =
  req_apiUrl :: string
  req_description :: "string option"
  req_adminPassword :: string

text \<open>
  \<^verbatim>\<open>updateApiConfigSchema.parse\<close>: \<^verbatim>\<open>apiUrl: z.string().url()\<close>, \<^verbatim>\<open>description:
  z.string().optional()\<close>, \<^verbatim>\<open>adminPassword: z.string().min(1)\<close>. \<open>None\<close> is the thrown
  \<^verbatim>\<open>ZodError\<close>. The URL check is the validation library's; its verdict on the \<^verbatim>\<open>apiUrl\<close>
  string of the request is the argument \<open>urlWellFormed\<close>.
\<close>

definition updateApiConfigSchema_parse :: "bool \<Rightarrow> config_body \<Rightarrow> UpdateApiConfigRequest option" where
  "updateApiConfigSchema_parse urlWellFormed body =
     (case body_apiUrl body of
        Some (JString u) \<Rightarrow>
          (case body_adminPassword body of
             Some (JString p) \<Rightarrow>
               if urlWellFormed \<and> length p \<ge> 1
               then (case body_description body of
                       None \<Rightarrow> Some \<lparr>req_apiUrl = u, req_description = None, req_adminPassword = p\<rparr>
                     | Some (JString d) \<Rightarrow>
                         Some \<lparr>req_apiUrl = u, req_description = Some d, req_adminPassword = p\<rparr>
                     | Some JOther \<Rightarrow> None)
               else None
           | _ \<Rightarrow> None)
      | _ \<Rightarrow> None)"

section \<open>VoiceCleanse/server/routes.ts: POST /api/config\<close>

text \<open>The JSON answers of the route: the three error texts, and the answer to a successful
  update with the public fields of the new record.\<close>

datatype config_error = AdminPasswordWrong | BadRequestData | ServerError

datatype config_response_body =
    ErrorBody config_error
  | UpdatedBody string bool "string option" int

record http_response =
  resp_status :: nat
  resp_body :: config_response_body

record server =
  storage :: MemStorage
  apiMonitor :: ApiMonitor

definition updated_description :: string where
  "updated_description =
     [CHR ''A'', CHR ''P'', CHR ''I'', CHR 0xE9, CHR 0x85, CHR 0x8D, CHR 0xE7, CHR 0xBD, CHR 0xAE,
      CHR 0xE5, CHR 0xB7, CHR 0xB2, CHR 0xE6, CHR 0x9B, CHR 0xB4, CHR 0xE6, CHR 0x96, CHR 0xB0]"

text \<open>
  \<open>post_api_config env sv body urlWellFormed now uuid monitorNow\<close>: \<open>env\<close> is the environment
  variable \<^verbatim>\<open>ADMIN_PASSWORD\<close>, \<open>now\<close> the date read by \<open>setApiConfig\<close>, \<open>monitorNow\<close> the one
  read by \<open>startMonitoring\<close>. Nothing in the handler throws but the schema, so the answer 500
  does not arise.
\<close>

definition post_api_config ::
  "string option \<Rightarrow> server \<Rightarrow> config_body \<Rightarrow> bool \<Rightarrow> int \<Rightarrow> string \<Rightarrow> int
     \<Rightarrow> server \<times> http_response" where
  "post_api_config env sv body urlWellFormed now uuid monitorNow =
     (case updateApiConfigSchema_parse urlWellFormed body of
        None \<Rightarrow> (sv, \<lparr>resp_status = 400, resp_body = ErrorBody BadRequestData\<rparr>)
      | Some validatedData \<Rightarrow>
          if req_adminPassword validatedData \<noteq> ADMIN_PASSWORD env
          then (sv, \<lparr>resp_status = 401, resp_body = ErrorBody AdminPasswordWrong\<rparr>)
          else
            (let (st, updatedConfig) =
                   setApiConfig (storage sv)
                     \<lparr>in_apiUrl = req_apiUrl validatedData, in_isActive = True,
                      in_description =
                        Some (case req_description validatedData of
                                None \<Rightarrow> updated_description
                              | Some d \<Rightarrow> if d = [] then updated_description else d),
                      in_updatedBy = Some ''admin''\<rparr> now uuid;
                 mon = startMonitoring (cleanup (apiMonitor sv)) (req_apiUrl validatedData) monitorNow
             in (\<lparr>storage = st, apiMonitor = mon\<rparr>,
                 \<lparr>resp_status = 200,
                  resp_body = UpdatedBody (cfg_apiUrl updatedConfig) (cfg_isActive updatedConfig)
                                (cfg_description updatedConfig) (cfg_updatedAt updatedConfig)\<rparr>)))"


section \<open>Class AudioSeparationAPI\<close>

text \<open>
  The class follows the configuration service in
  \<^verbatim>\<open>VoiceCleanse/client/src/services/apiConfigService.ts\<close> (lines 92 to 249).
  A task snapshot as the status endpoint returns it; the fields are prefixed with \<open>task_\<close>
  (the source has \<^verbatim>\<open>task_id\<close>, \<^verbatim>\<open>status\<close>, \<^verbatim>\<open>progress\<close>, \<^verbatim>\<open>message\<close>, \<^verbatim>\<open>error\<close>), and the
  metrics, which no control flow reads, are left out.
\<close>

datatype task_status = Queued | Processing | Completed | Failed

record AudioTask =
  task_id :: string
  task_status :: task_status
  task_progress :: nat
  task_message :: string
  task_error :: "string option"

record AudioSeparationAPI =
  baseURL :: string
  api_currentTaskId :: "string option"
  pollingInterval :: "nat option"

text \<open>The three callbacks handed to \<open>startPolling\<close> act on the state \<open>'h\<close> of their owner; an
  \<^verbatim>\<open>Error\<close> reaches \<open>onError\<close> as its message.\<close>

record 'h poll_callbacks =
  onUpdate :: "AudioTask \<Rightarrow> 'h \<Rightarrow> 'h"
  onComplete :: "AudioTask \<Rightarrow> 'h \<Rightarrow> 'h"
  onError :: "string \<Rightarrow> 'h \<Rightarrow> 'h"

text \<open>One API object in the browser: the object, the interval timers it has registered (each
  closing over its task id and callbacks) and the state its callbacks write.\<close>

record 'h browser =
  api :: AudioSeparationAPI
  poll_timers :: "(string \<times> 'h poll_callbacks) timers"
  ui :: 'h

text \<open>\<^verbatim>\<open>baseURL || process.env.VITE_BACKEND_URL || 'http://backend:5000'\<close>\<close>

definition new_AudioSeparationAPI :: "string option \<Rightarrow> string option \<Rightarrow> AudioSeparationAPI" where
  "new_AudioSeparationAPI url env =
     \<lparr>baseURL = (case url of
                   Some u \<Rightarrow> if u \<noteq> [] then u
                            else (case env of Some e \<Rightarrow> if e \<noteq> [] then e else ''http://backend:5000''
                                  | None \<Rightarrow> ''http://backend:5000'')
                 | None \<Rightarrow> (case env of Some e \<Rightarrow> if e \<noteq> [] then e else ''http://backend:5000''
                            | None \<Rightarrow> ''http://backend:5000'')),
      api_currentTaskId = None, pollingInterval = None\<rparr>"

definition new_browser :: "string option \<Rightarrow> string option \<Rightarrow> 'h \<Rightarrow> 'h browser" where
  "new_browser url env h = \<lparr>api = new_AudioSeparationAPI url env, poll_timers = no_timers, ui = h\<rparr>"

definition stopPolling :: "'h browser \<Rightarrow> 'h browser" where
  "stopPolling w =
     (case pollingInterval (api w) of
        None \<Rightarrow> w
      | Some h \<Rightarrow> w\<lparr>poll_timers := clearInterval (poll_timers w) h,
                     api := (api w)\<lparr>pollingInterval := None\<rparr>\<rparr>)"

definition startPolling :: "'h browser \<Rightarrow> string \<Rightarrow> 'h poll_callbacks \<Rightarrow> 'h browser" where
  "startPolling w taskId cb =
     (let tm = (case pollingInterval (api w) of
                  None \<Rightarrow> poll_timers w
                | Some h \<Rightarrow> clearInterval (poll_timers w) h);
          (h', tm') = setInterval tm (taskId, cb)
      in w\<lparr>poll_timers := tm', api := (api w)\<lparr>pollingInterval := Some h'\<rparr>\<rparr>)"

text \<open>What \<^verbatim>\<open>await this.getTaskStatus(taskId)\<close> gives: a snapshot, or a thrown value, which is
  an \<^verbatim>\<open>Error\<close> with its message or (\<open>None\<close>) something else.\<close>

datatype poll_outcome = StatusResponse AudioTask | StatusThrew "string option"

datatype client_effect = GetTaskStatus string

definition processing_failed_text :: string where
  "processing_failed_text =
     [CHR 0xE8, CHR 0x99, CHR 0x95, CHR 0xE7, CHR 0x90, CHR 0x86, CHR 0xE5, CHR 0xA4, CHR 0xB1,
      CHR 0xE6, CHR 0x95, CHR 0x97]"

text \<open>
  The interval callback is an \<^verbatim>\<open>async\<close> function, so a run of it has two steps: it issues the
  status request, and it continues when the answer is there. \<open>poll_answer\<close> is the second
  step, taken in the state in which the answer arrives. Nothing in it asks whether the timer
  that issued the request is still active: an answer that arrives after \<open>stopPolling\<close>, or
  after a later \<open>startPolling\<close>, calls the callbacks of its own timer and, on completion or
  failure, \<open>stopPolling\<close> of the object as it is then.
\<close>

definition poll_answer :: "'h browser \<Rightarrow> 'h poll_callbacks \<Rightarrow> poll_outcome \<Rightarrow> 'h browser" where
  "poll_answer w cb outcome =
     (case outcome of
        StatusResponse st \<Rightarrow>
          (let w1 = w\<lparr>ui := onUpdate cb st (ui w)\<rparr>
           in if task_status st = Completed
              then (let w2 = stopPolling w1 in w2\<lparr>ui := onComplete cb st (ui w2)\<rparr>)
              else if task_status st = Failed
              then (let w2 = stopPolling w1
                    in w2\<lparr>ui := onError cb
                            (case task_error st of
                               None \<Rightarrow> processing_failed_text
                             | Some e \<Rightarrow> if e = [] then processing_failed_text else e)
                            (ui w2)\<rparr>)
              else w1)
      | StatusThrew thrown \<Rightarrow>
          (let w2 = stopPolling w
           in w2\<lparr>ui := onError cb
                   (case thrown of Some msg \<Rightarrow> msg | None \<Rightarrow> ''Unknown polling error'')
                   (ui w2)\<rparr>))"

text \<open>
  One run of the interval callback of timer \<open>h\<close> in which the answer arrives before anything
  else happens: the request, then \<open>poll_answer\<close> in the same state. A timer that is not active
  does not fire.
\<close>

definition poll_tick ::
  "'h browser \<Rightarrow> nat \<Rightarrow> poll_outcome \<Rightarrow> 'h browser \<times> client_effect list" where
  "poll_tick w h outcome =
     (case map_of (active (poll_timers w)) h of
        None \<Rightarrow> (w, [])
      | Some (taskId, cb) \<Rightarrow>
          (poll_answer w cb outcome,
           [GetTaskStatus (baseURL (api w) @ ''/api/status/'' @ taskId)]))"

section \<open>VoiceCleanse/client/src/hooks/useAudioSeparation.ts\<close>

text \<open>The React state of the hook that the polling callbacks and \<open>reset\<close> write.\<close>

record hook_state =
  isProcessing :: bool
  progress :: nat
  status :: string
  result :: "AudioTask option"
  error :: "string option"
  hook_currentTaskId :: "string option"

definition done_text :: string where
  "done_text =
     [CHR 0xE5, CHR 0xAE, CHR 0x8C, CHR 0xE6, CHR 0x88, CHR 0x90, CHR 0xEF, CHR 0xBC, CHR 0x81]"

definition processing_text :: string where
  "processing_text =
     [CHR 0xE8, CHR 0x99, CHR 0x95, CHR 0xE7, CHR 0x90, CHR 0x86, CHR 0xE4, CHR 0xB8, CHR 0xAD,
      CHR ''.'', CHR ''.'', CHR ''.'']"

text \<open>The three arrow functions \<open>processAudio\<close> passes to \<open>startPolling\<close>.\<close>

definition hook_callbacks :: "hook_state poll_callbacks" where
  "hook_callbacks =
     \<lparr>onUpdate = (\<lambda>statusData h. h\<lparr>progress := task_progress statusData,
                                     status := task_message statusData\<rparr>),
      onComplete = (\<lambda>statusData h. h\<lparr>progress := 100, status := done_text,
                                       result := Some statusData, isProcessing := False\<rparr>),
      onError = (\<lambda>err h. h\<lparr>error := Some err, isProcessing := False\<rparr>)\<rparr>"

text \<open>
  The run of \<open>processAudio\<close> in which the pre-flight health check passes and the upload
  answers with a task id: the state is reset for the new run, the id is stored (by
  \<^verbatim>\<open>uploadAudio\<close> in the API object, by the hook in its state), the status text is set and
  polling starts.
\<close>

definition processAudio_uploaded :: "hook_state browser \<Rightarrow> string \<Rightarrow> hook_state browser" where
  "processAudio_uploaded w taskId =
     startPolling
       (w\<lparr>api := (api w)\<lparr>api_currentTaskId := Some taskId\<rparr>,
          ui := (ui w)\<lparr>isProcessing := True, progress := 0, error := None, result := None,
                       hook_currentTaskId := Some taskId, status := processing_text\<rparr>\<rparr>)
       taskId hook_callbacks"

definition reset :: "hook_state browser \<Rightarrow> hook_state browser" where
  "reset w =
     (let w1 = stopPolling w
      in w1\<lparr>ui := (ui w1)\<lparr>isProcessing := False, progress := 0, status := [], result := None,
                            error := None, hook_currentTaskId := None\<rparr>\<rparr>)"

text \<open>
  The calls that reach one API object, and the states they produce from the fresh one. A
  tick whose answer is late issues its request, which changes no state, and continues with
  \<open>PollAnswer\<close> after whatever other events come in between; the callbacks are those of the
  timer that issued the request.
\<close>

datatype 'h client_event =
    StartPolling string "'h poll_callbacks"
  | StopPolling
  | PollTick nat poll_outcome
  | PollAnswer "'h poll_callbacks" poll_outcome

fun client_step :: "'h browser \<Rightarrow> 'h client_event \<Rightarrow> 'h browser" where
  "client_step w (StartPolling taskId cb) = startPolling w taskId cb"
| "client_step w StopPolling = stopPolling w"
| "client_step w (PollTick h outcome) = fst (poll_tick w h outcome)"
| "client_step w (PollAnswer cb outcome) = poll_answer w cb outcome"

definition client_run :: "'h browser \<Rightarrow> 'h client_event list \<Rightarrow> 'h browser" where
  "client_run w evs = foldl client_step w evs"

text \<open>The same for the hook and its API object: an upload that succeeded, \<open>reset\<close>, a tick of
  a polling timer, the late answer to a status request (every timer of the hook has the
  callbacks of \<open>processAudio\<close>). The hook starts with the defaults of its \<^verbatim>\<open>useState\<close> calls.\<close>

definition initial_hook_state :: hook_state where
  "initial_hook_state =
     \<lparr>isProcessing = False, progress = 0, status = [], result = None, error = None,
      hook_currentTaskId = None\<rparr>"

datatype hook_event =
    Uploaded string
  | Reset
  | Tick nat poll_outcome
  | Answer poll_outcome

fun hook_step :: "hook_state browser \<Rightarrow> hook_event \<Rightarrow> hook_state browser" where
  "hook_step w (Uploaded taskId) = processAudio_uploaded w taskId"
| "hook_step w Reset = reset w"
| "hook_step w (Tick h outcome) = fst (poll_tick w h outcome)"
| "hook_step w (Answer outcome) = poll_answer w hook_callbacks outcome"

definition hook_run :: "hook_event list \<Rightarrow> string option \<Rightarrow> string option \<Rightarrow> hook_state browser" where
  "hook_run evs url env = foldl hook_step (new_browser url env initial_hook_state) evs"

text \<open>The active timers of the object are exactly the handle it stores.\<close>

definition one_poller :: "'h browser \<Rightarrow> bool" where
  "one_poller w =
     (map fst (active (poll_timers w)) =
        (case pollingInterval (api w) of None \<Rightarrow> [] | Some h \<Rightarrow> [h]))"

text \<open>The error a poll outcome surfaces, if it is a failure: the task's error text (or the
  fixed text) of a snapshot with status \<^verbatim>\<open>failed\<close>, the message of a thrown error.\<close>

fun surfaced_error :: "poll_outcome \<Rightarrow> string option" where
  "surfaced_error (StatusResponse st) =
     (if task_status st = Failed
      then Some (case task_error st of
                   None \<Rightarrow> processing_failed_text
                 | Some e \<Rightarrow> if e = [] then processing_failed_text else e)
      else None)"
| "surfaced_error (StatusThrew thrown) =
     Some (case thrown of Some msg \<Rightarrow> msg | None \<Rightarrow> ''Unknown polling error'')"

section \<open>VoiceCleanse/client/src/components/AudioUploader.tsx\<close>

text \<open>
  A selected file is its name and its size in bytes. The name is a JavaScript string, a
  list of UTF-16 code units, which are numbers here; \<open>units\<close> gives the code units of an ASCII
  literal. The two alert texts are named, not spelled. The answer of the user to the
  \<^verbatim>\<open>confirm\<close> dialogue is the argument \<open>shouldContinue\<close>.
\<close>

type_synonym code_unit = nat

record File =
  file_name :: "code_unit list"
  file_size :: nat

datatype alert_text = FileTooLarge | UnsupportedFormat

datatype uploader_effect = Alert alert_text | Confirm | OnFileSelect File

definition units :: "string \<Rightarrow> code_unit list" where
  "units s = map of_char s"

text \<open>
  \<^verbatim>\<open>toLowerCase\<close> goes unit by unit. It maps the letters \<^verbatim>\<open>A\<close> to \<^verbatim>\<open>Z\<close>; it maps U+0130, the
  capital I with a dot above, to the two units \<^verbatim>\<open>i\<close> and U+0307, which is the one case in
  which the result is longer than the name; and it maps U+212A, the Kelvin sign, to \<^verbatim>\<open>k\<close>.
  These are the units whose lower-case form holds an ASCII unit. Every other letter that has
  a lower-case form goes, one unit to one unit, to a unit outside ASCII; such a unit is left
  as it is here, since the handler compares the extension with ASCII literals only.
\<close>

definition lower_unit :: "code_unit \<Rightarrow> code_unit list" where
  "lower_unit u =
     (if of_char CHR ''A'' \<le> u \<and> u \<le> of_char CHR ''Z'' then [u + 32]
      else if u = 0x0130 then [of_char CHR ''i'', 0x0307]
      else if u = 0x212A then [of_char CHR ''k'']
      else [u])"

definition toLowerCase :: "code_unit list \<Rightarrow> code_unit list" where
  "toLowerCase s = concat (map lower_unit s)"

text \<open>\<^verbatim>\<open>s.lastIndexOf(c)\<close>: the index of the last occurrence, \<open>-1\<close> when there is none. The
  scan keeps the position \<open>i\<close> and the last index found so far.\<close>

fun lastIndexOf_from :: "code_unit list \<Rightarrow> code_unit \<Rightarrow> int \<Rightarrow> int \<Rightarrow> int" where
  "lastIndexOf_from [] c i found = found"
| "lastIndexOf_from (x # xs) c i found = lastIndexOf_from xs c (i + 1) (if x = c then i else found)"

definition lastIndexOf :: "code_unit list \<Rightarrow> code_unit \<Rightarrow> int" where
  "lastIndexOf s c = lastIndexOf_from s c 0 (- 1)"

text \<open>\<^verbatim>\<open>s.substring(start)\<close>: a negative start counts as 0, one beyond the end as the end.\<close>

definition substring :: "code_unit list \<Rightarrow> int \<Rightarrow> code_unit list" where
  "substring s start = drop (nat (max 0 start)) s"

definition maxSize :: nat where
  "maxSize = 50 * 1024 * 1024"

definition allowedExtensions :: "code_unit list list" where
  "allowedExtensions = [units ''.wav'', units ''.mp3'', units ''.flac'', units ''.ogg'', units ''.m4a'']"

text \<open>The index of the last dot is taken in the name as it is, and applied to the lower-cased
  name.\<close>

definition fileExtension :: "code_unit list \<Rightarrow> code_unit list" where
  "fileExtension name = substring (toLowerCase name) (lastIndexOf name (of_char CHR ''.''))"

definition handleFileSelect :: "File option \<Rightarrow> bool \<Rightarrow> uploader_effect list" where
  "handleFileSelect selected shouldContinue =
     (case selected of
        None \<Rightarrow> []
      | Some file \<Rightarrow>
          if file_size file > maxSize then [Alert FileTooLarge]
          else if fileExtension (file_name file) \<notin> set allowedExtensions
          then [Alert UnsupportedFormat]
          else if fileExtension (file_name file) = units ''.m4a''
          then (if \<not> shouldContinue then [Confirm] else [Confirm, OnFileSelect file])
          else [OnFileSelect file])"

text \<open>"The name ends in \<open>e\<close>", as \<^verbatim>\<open>String.prototype.endsWith\<close> computes it; it is what "the
  file has extension \<open>e\<close>" means for the extensions at hand, up to the case of the letters.\<close>

definition endsWith :: "code_unit list \<Rightarrow> code_unit list \<Rightarrow> bool" where
  "endsWith s e = (length e \<le> length s \<and> drop (length s - length e) s = e)"

section \<open>Properties of the health monitor\<close>

lemma checkApiHealth_success:
  assumes "healthStatus m u = Some a" "objects m a = Some s" "probe_succeeds oc"
  shows "checkApiHealth m u oc t =
           (m\<lparr>objects := (objects m)(a \<mapsto>
                 s\<lparr>isHealthy := True, lastCheck := t, consecutiveFailures := 0, lastError := None\<rparr>)\<rparr>,
            Fetch (u @ ''/health'') #
              (if \<not> isHealthy s \<and> 0 < t then [NotifyApiRecovered u] else []))"
  using assms
  by (cases oc)
     (simp_all add: checkApiHealth_def checkApiHealth_resumed_def handleHealthyResponse_def Let_def)

lemma checkApiHealth_failure:
  assumes "healthStatus m u = Some a" "objects m a = Some s" "\<not> probe_succeeds oc"
  shows "checkApiHealth m u oc t =
           (m\<lparr>objects := (objects m)(a \<mapsto>
                 s\<lparr>isHealthy := False, lastCheck := t,
                   consecutiveFailures := Suc (consecutiveFailures s),
                   lastError := Some (probe_error oc)\<rparr>)\<rparr>,
            Fetch (u @ ''/health'') #
              (if isHealthy s
               then [NotifyApiConnectionError u (probe_error oc) (Suc (consecutiveFailures s))]
               else []))"
  using assms
  by (cases oc)
     (simp_all add: checkApiHealth_def checkApiHealth_resumed_def handleUnhealthyResponse_def
        Let_def MAX_RETRIES_def)

lemma next_object_stopMonitoring: "next_object (stopMonitoring m u) = next_object m"
  by (simp add: stopMonitoring_def split: option.splits)

lemma startMonitoring_object:
  "healthStatus (startMonitoring m u t0) u = Some (next_object m)"
  "objects (startMonitoring m u t0) (next_object m) =
     Some \<lparr>isHealthy = False, lastCheck = t0, lastError = None, consecutiveFailures = 0, uptime = 100\<rparr>"
  by (simp_all add: startMonitoring_def Let_def setInterval_def next_object_stopMonitoring)

lemma getHealthStatus_startMonitoring:
  "getHealthStatus (startMonitoring m u t0) u =
     Some \<lparr>isHealthy = False, lastCheck = t0, lastError = None, consecutiveFailures = 0, uptime = 100\<rparr>"
  by (simp add: getHealthStatus_def startMonitoring_object)


lemma probes_Cons:
  "probes m u ((oc, t) # rest) =
     (fst (probes (fst (checkApiHealth m u oc t)) u rest),
      filter is_notification (snd (checkApiHealth m u oc t))
        # snd (probes (fst (checkApiHealth m u oc t)) u rest))"
  by (simp split: prod.splits)

declare probes.simps(2) [simp del]

lemma probes_append:
  "probes m u (xs @ ys) =
     (fst (probes (fst (probes m u xs)) u ys),
      snd (probes m u xs) @ snd (probes (fst (probes m u xs)) u ys))"
  by (induction xs arbitrary: m) (auto simp: probes_Cons)

text \<open>Failed probes of a record that is already unhealthy keep it unhealthy, count up and
  notify nobody.\<close>

lemma probes_failures_while_unhealthy:
  assumes "healthStatus m u = Some a" "objects m a = Some s" "\<not> isHealthy s"
    and "list_all (\<lambda>p. \<not> probe_succeeds (fst p)) fails"
  shows "\<exists>s'. healthStatus (fst (probes m u fails)) u = Some a
           \<and> objects (fst (probes m u fails)) a = Some s' \<and> \<not> isHealthy s'
           \<and> consecutiveFailures s' = consecutiveFailures s + length fails
           \<and> uptime s' = uptime s
           \<and> snd (probes m u fails) = replicate (length fails) []"
  using assms
proof (induction fails arbitrary: m s)
  case Nil
  then show ?case by simp
next
  case (Cons p fails)
  obtain oc t where p: "p = (oc, t)" by (cases p)
  from Cons.prems p have nf: "\<not> probe_succeeds oc"
    and rest: "list_all (\<lambda>p. \<not> probe_succeeds (fst p)) fails"
    by simp_all
  let ?s1 = "s\<lparr>isHealthy := False, lastCheck := t,
                   consecutiveFailures := Suc (consecutiveFailures s),
                   lastError := Some (probe_error oc)\<rparr>"
  let ?m1 = "m\<lparr>objects := (objects m)(a \<mapsto> ?s1)\<rparr>"
  have step: "checkApiHealth m u oc t = (?m1, [Fetch (u @ ''/health'')])"
    using checkApiHealth_failure [OF Cons.prems(1,2) nf, of t] Cons.prems(3) by simp
  have "healthStatus ?m1 u = Some a" "objects ?m1 a = Some ?s1" "\<not> isHealthy ?s1"
    using Cons.prems(1) by simp_all
  from Cons.IH [OF this rest] obtain s' where
    s': "healthStatus (fst (probes ?m1 u fails)) u = Some a"
      "objects (fst (probes ?m1 u fails)) a = Some s'" "\<not> isHealthy s'"
      "consecutiveFailures s' = consecutiveFailures ?s1 + length fails"
      "uptime s' = uptime ?s1"
      "snd (probes ?m1 u fails) = replicate (length fails) []"
    by blast
  show ?case
    using s' by (simp add: p step probes_Cons)
qed

text \<open>
  C1, as the code has it. \<open>startMonitoring\<close> leaves the record unhealthy, so of the probe
  outcomes fail, fail, success, fail (threshold \<open>MAX_RETRIES = 1\<close>) the first two failures
  request no notification, the success requests the recovery notification (the clock reading
  of that probe being positive), and the trailing failure, which finds the record healthy,
  requests the connection-error notification with retry count 1. Two notifications in all.
\<close>

theorem start_then_fail_fail_success_fail:
  assumes "\<not> probe_succeeds f1" "\<not> probe_succeeds f2" "probe_succeeds ok" "\<not> probe_succeeds f4"
    and "0 < t3"
  shows "snd (probes (startMonitoring m apiUrl t0) apiUrl [(f1, t1), (f2, t2), (ok, t3), (f4, t4)])
           = [[], [], [NotifyApiRecovered apiUrl], [NotifyApiConnectionError apiUrl (probe_error f4) 1]]"
proof -
  define m0 where "m0 = startMonitoring m apiUrl t0"
  define a where "a = next_object m"
  define s0 where "s0 = \<lparr>isHealthy = False, lastCheck = t0, lastError = None,
                          consecutiveFailures = 0, uptime = 100\<rparr>"
  define s1 where "s1 = s0\<lparr>isHealthy := False, lastCheck := t1,
      consecutiveFailures := Suc (consecutiveFailures s0), lastError := Some (probe_error f1)\<rparr>"
  define m1 where "m1 = m0\<lparr>objects := (objects m0)(a \<mapsto> s1)\<rparr>"
  define s2 where "s2 = s1\<lparr>isHealthy := False, lastCheck := t2,
      consecutiveFailures := Suc (consecutiveFailures s1), lastError := Some (probe_error f2)\<rparr>"
  define m2 where "m2 = m1\<lparr>objects := (objects m1)(a \<mapsto> s2)\<rparr>"
  define s3 where "s3 = s2\<lparr>isHealthy := True, lastCheck := t3,
      consecutiveFailures := 0, lastError := None\<rparr>"
  define m3 where "m3 = m2\<lparr>objects := (objects m2)(a \<mapsto> s3)\<rparr>"
  have r0: "healthStatus m0 apiUrl = Some a" and h0: "objects m0 a = Some s0"
    unfolding m0_def s0_def a_def by (rule startMonitoring_object)+
  have r1: "healthStatus m1 apiUrl = Some a" and h1: "objects m1 a = Some s1"
    using r0 by (simp_all add: m1_def)
  have r2: "healthStatus m2 apiUrl = Some a" and h2: "objects m2 a = Some s2"
    using r1 by (simp_all add: m2_def)
  have r3: "healthStatus m3 apiUrl = Some a" and h3: "objects m3 a = Some s3"
    using r2 by (simp_all add: m3_def)
  have c1: "checkApiHealth m0 apiUrl f1 t1 = (m1, [Fetch (apiUrl @ ''/health'')])"
    using checkApiHealth_failure [OF r0 h0 assms(1), of t1] by (simp add: m1_def s1_def s0_def)
  have c2: "checkApiHealth m1 apiUrl f2 t2 = (m2, [Fetch (apiUrl @ ''/health'')])"
    using checkApiHealth_failure [OF r1 h1 assms(2), of t2] by (simp add: m2_def s2_def s1_def)
  have c3: "checkApiHealth m2 apiUrl ok t3 =
              (m3, [Fetch (apiUrl @ ''/health''), NotifyApiRecovered apiUrl])"
    using checkApiHealth_success [OF r2 h2 assms(3), of t3] assms(5)
    by (simp add: m3_def s3_def s2_def)
  have c4: "snd (checkApiHealth m3 apiUrl f4 t4) =
              [Fetch (apiUrl @ ''/health''), NotifyApiConnectionError apiUrl (probe_error f4) 1]"
    using checkApiHealth_failure [OF r3 h3 assms(4), of t4] by (simp add: s3_def)
  have "snd (probes m0 apiUrl [(f1, t1), (f2, t2), (ok, t3), (f4, t4)])
           = [[], [], [NotifyApiRecovered apiUrl], [NotifyApiConnectionError apiUrl (probe_error f4) 1]]"
    by (simp add: probes_Cons c1 c2 c3 c4)
  then show ?thesis by (simp add: m0_def)
qed

text \<open>The amended C1 at a concrete run: a timeout, an HTTP 503, an HTTP 200 and an HTTP 500,
  one hour apart.\<close>

theorem start_then_fail_fail_success_fail_witness:
  "snd (probes (startMonitoring new_ApiMonitor ''http://dead:5000'' 1000) ''http://dead:5000''
        [(Threw (JsError ''AbortError'' ''This operation was aborted''), 11000),
         (Responded 503, 3611000), (Responded 200, 7211000), (Responded 500, 10811000)])
     = [[], [], [NotifyApiRecovered ''http://dead:5000''],
        [NotifyApiConnectionError ''http://dead:5000'' (JsError ''Error'' ''HTTP 500'') 1]]"
  using start_then_fail_fail_success_fail [of "Threw (JsError ''AbortError'' ''This operation was aborted'')"
     "Responded 503" "Responded 200" "Responded 500" 7211000 new_ApiMonitor "''http://dead:5000''"
     1000 11000 3611000 10811000]
  by (simp add: response_ok_def show_nat.simps digit_char_def)

text \<open>
  C1 as the specification words it fails on that run: it promises an error notification after
  the first failure and none after the trailing one. After \<open>startMonitoring\<close> the first
  failure requests nothing, and the trailing failure requests the error notification.
\<close>

theorem fail_fail_success_fail_counterexample:
  "hd (snd (probes (startMonitoring new_ApiMonitor ''http://dead:5000'' 1000) ''http://dead:5000''
        [(Threw (JsError ''AbortError'' ''This operation was aborted''), 11000),
         (Responded 503, 3611000), (Responded 200, 7211000), (Responded 500, 10811000)])) = []
   \<and> last (snd (probes (startMonitoring new_ApiMonitor ''http://dead:5000'' 1000) ''http://dead:5000''
        [(Threw (JsError ''AbortError'' ''This operation was aborted''), 11000),
         (Responded 503, 3611000), (Responded 200, 7211000), (Responded 500, 10811000)]))
       = [NotifyApiConnectionError ''http://dead:5000'' (JsError ''Error'' ''HTTP 500'') 1]"
  by (simp add: probes_Cons checkApiHealth_def checkApiHealth_resumed_def startMonitoring_def
      stopMonitoring_def new_ApiMonitor_def setInterval_def no_timers_def handleHealthyResponse_def
      handleUnhealthyResponse_def response_ok_def Let_def MAX_RETRIES_def
      show_nat.simps digit_char_def)

text \<open>
  C2. \<open>startMonitoring\<close> stores, for its URL, a record that is unhealthy with zero consecutive
  failures. Whatever failed probes follow, they request nothing and leave the record
  unhealthy; the first successful probe after \<open>startMonitoring\<close> is then an
  unhealthy-to-healthy transition: it requests the "recovered" notification for that URL,
  though the backend was never seen healthy before, and it leaves the record healthy with
  zero consecutive failures and no error, checked at the time of that probe. The transition
  has then happened: a success that follows at once requests nothing. The second test of the
  code, \<^verbatim>\<open>lastCheck.getTime() > 0\<close>, reads the date that the handler has just stored, so it
  holds for every clock reading after 1970 and holds no first check back.
\<close>

theorem first_success_reports_recovery:
  "getHealthStatus (startMonitoring m apiUrl t0) apiUrl =
     Some \<lparr>isHealthy = False, lastCheck = t0, lastError = None, consecutiveFailures = 0, uptime = 100\<rparr>
   \<and> (list_all (\<lambda>p. \<not> probe_succeeds (fst p)) fails \<and> probe_succeeds ok \<and> 0 < now \<longrightarrow>
        snd (probes (startMonitoring m apiUrl t0) apiUrl (fails @ [(ok, now)]))
          = replicate (length fails) [] @ [[NotifyApiRecovered apiUrl]]
        \<and> map_option isHealthy
            (getHealthStatus (fst (probes (startMonitoring m apiUrl t0) apiUrl fails)) apiUrl)
          = Some False
        \<and> getHealthStatus (fst (probes (startMonitoring m apiUrl t0) apiUrl (fails @ [(ok, now)]))) apiUrl
          = Some \<lparr>isHealthy = True, lastCheck = now, lastError = None,
                  consecutiveFailures = 0, uptime = 100\<rparr>
        \<and> (probe_succeeds ok' \<longrightarrow>
             snd (probes (startMonitoring m apiUrl t0) apiUrl (fails @ [(ok, now), (ok', now')]))
               = replicate (length fails) [] @ [[NotifyApiRecovered apiUrl], []]))"
proof (intro conjI impI)
  let ?m0 = "startMonitoring m apiUrl t0"
  let ?s0 = "\<lparr>isHealthy = False, lastCheck = t0, lastError = None, consecutiveFailures = 0, uptime = 100\<rparr>"
  show "getHealthStatus ?m0 apiUrl = Some ?s0"
    by (rule getHealthStatus_startMonitoring)
  have r0: "healthStatus ?m0 apiUrl = Some (next_object m)"
    and h0: "objects ?m0 (next_object m) = Some ?s0"
    by (rule startMonitoring_object)+
  assume h: "list_all (\<lambda>p. \<not> probe_succeeds (fst p)) fails \<and> probe_succeeds ok \<and> 0 < now"
  from probes_failures_while_unhealthy [OF r0 h0 _ conjunct1 [OF h]]
  obtain s' where s': "healthStatus (fst (probes ?m0 apiUrl fails)) apiUrl = Some (next_object m)"
    "objects (fst (probes ?m0 apiUrl fails)) (next_object m) = Some s'" "\<not> isHealthy s'"
    "uptime s' = 100"
    "snd (probes ?m0 apiUrl fails) = replicate (length fails) []"
    by auto
  let ?m1 = "fst (probes ?m0 apiUrl fails)"
  let ?s2 = "s'\<lparr>isHealthy := True, lastCheck := now, consecutiveFailures := 0, lastError := None\<rparr>"
  let ?m2 = "?m1\<lparr>objects := (objects ?m1)(next_object m \<mapsto> ?s2)\<rparr>"
  have c: "checkApiHealth ?m1 apiUrl ok now = (?m2, [Fetch (apiUrl @ ''/health''), NotifyApiRecovered apiUrl])"
    using checkApiHealth_success [OF s'(1,2), of ok now] s'(3) h by simp
  have one: "probes ?m1 apiUrl [(ok, now)] = (?m2, [[NotifyApiRecovered apiUrl]])"
    by (simp add: probes_Cons c)
  show "snd (probes ?m0 apiUrl (fails @ [(ok, now)]))
          = replicate (length fails) [] @ [[NotifyApiRecovered apiUrl]]"
    by (simp add: probes_append [of _ _ fails] s'(5) one)
  show "map_option isHealthy (getHealthStatus ?m1 apiUrl) = Some False"
    using s'(1,2,3) by (simp add: getHealthStatus_def)
  have after: "fst (probes ?m0 apiUrl (fails @ [(ok, now)])) = ?m2"
    by (simp add: probes_append [of _ _ fails] one)
  have s2: "?s2 = \<lparr>isHealthy = True, lastCheck = now, lastError = None,
                  consecutiveFailures = 0, uptime = 100\<rparr>"
    using s'(4) by (cases s') simp
  show "getHealthStatus (fst (probes ?m0 apiUrl (fails @ [(ok, now)]))) apiUrl
          = Some \<lparr>isHealthy = True, lastCheck = now, lastError = None,
                  consecutiveFailures = 0, uptime = 100\<rparr>"
    unfolding after using s'(1) s2 by (simp add: getHealthStatus_def)
  assume ok': "probe_succeeds ok'"
  have r2: "healthStatus ?m2 apiUrl = Some (next_object m)"
    and h2: "objects ?m2 (next_object m) = Some ?s2"
    using s'(1) by simp_all
  have c': "snd (checkApiHealth ?m2 apiUrl ok' now') = [Fetch (apiUrl @ ''/health'')]"
    using checkApiHealth_success [OF r2 h2 ok', of now'] by simp
  have two: "snd (probes ?m1 apiUrl [(ok, now), (ok', now')]) = [[NotifyApiRecovered apiUrl], []]"
    by (simp add: probes_Cons c c')
  show "snd (probes ?m0 apiUrl (fails @ [(ok, now), (ok', now')]))
               = replicate (length fails) [] @ [[NotifyApiRecovered apiUrl], []]"
    by (simp add: probes_append [of _ _ fails] s'(5) two)
qed

text \<open>C2 at two concrete runs: monitoring starts, one probe gets an HTTP 503, the next an HTTP
  200; and monitoring starts and the very first probe gets an HTTP 200, so that "recovered" is
  reported of a backend that was never seen down. In both the record ends healthy, and a
  further HTTP 200 reports nothing.\<close>

theorem first_success_reports_recovery_witness:
  "list_all (\<lambda>p. \<not> probe_succeeds (fst p)) [(Responded 503, 2000::int)]
   \<and> probe_succeeds (Responded 200) \<and> (0::int) < 3000
   \<and> snd (probes (startMonitoring new_ApiMonitor ''http://backend:5000'' 1000) ''http://backend:5000''
         ([(Responded 503, 2000)] @ [(Responded 200, 3000)]))
     = [[], [NotifyApiRecovered ''http://backend:5000'']]
   \<and> getHealthStatus (fst (probes (startMonitoring new_ApiMonitor ''http://backend:5000'' 1000)
         ''http://backend:5000'' ([(Responded 503, 2000)] @ [(Responded 200, 3000)])))
         ''http://backend:5000''
     = Some \<lparr>isHealthy = True, lastCheck = 3000, lastError = None, consecutiveFailures = 0,
             uptime = 100\<rparr>
   \<and> snd (probes (startMonitoring new_ApiMonitor ''http://backend:5000'' 1000) ''http://backend:5000''
         ([(Responded 503, 2000)] @ [(Responded 200, 3000), (Responded 204, 4000)]))
     = [[], [NotifyApiRecovered ''http://backend:5000''], []]
   \<and> snd (probes (startMonitoring new_ApiMonitor ''http://backend:5000'' 1000) ''http://backend:5000''
         ([] @ [(Responded 200, 3000)]))
     = [[NotifyApiRecovered ''http://backend:5000'']]
   \<and> getHealthStatus (fst (probes (startMonitoring new_ApiMonitor ''http://backend:5000'' 1000)
         ''http://backend:5000'' ([] @ [(Responded 200, 3000)]))) ''http://backend:5000''
     = Some \<lparr>isHealthy = True, lastCheck = 3000, lastError = None, consecutiveFailures = 0,
             uptime = 100\<rparr>"
  using first_success_reports_recovery [of new_ApiMonitor "''http://backend:5000''" 1000
      "[(Responded 503, 2000)]" "Responded 200" 3000 "Responded 204" 4000]
    first_success_reports_recovery [of new_ApiMonitor "''http://backend:5000''" 1000
      "[]" "Responded 200" 3000 "Responded 204" 4000]
  by (simp add: response_ok_def)




subsection \<open>A probe that is resumed after a restart\<close>

text \<open>
  When \<open>startMonitoring\<close> runs again for a URL while the probe it launched before is still
  waiting, that probe has read the first status object. Resumed with a success, it reports
  "recovered" from the first object and leaves the record now stored under the URL as it
  was, unhealthy; the probe of the second call then reports "recovered" once more.
\<close>

lemma resumed_after_restart:
  "snd (checkApiHealth_resumed
          (startMonitoring (startMonitoring new_ApiMonitor ''http://backend:5000'' 1000)
             ''http://backend:5000'' 1500)
          ''http://backend:5000'' 0 (Responded 200) 2000)
     = [NotifyApiRecovered ''http://backend:5000'']
   \<and> getHealthStatus
        (fst (checkApiHealth_resumed
          (startMonitoring (startMonitoring new_ApiMonitor ''http://backend:5000'' 1000)
             ''http://backend:5000'' 1500)
          ''http://backend:5000'' 0 (Responded 200) 2000)) ''http://backend:5000''
     = Some \<lparr>isHealthy = False, lastCheck = 1500, lastError = None, consecutiveFailures = 0,
             uptime = 100\<rparr>
   \<and> snd (checkApiHealth_resumed
        (fst (checkApiHealth_resumed
          (startMonitoring (startMonitoring new_ApiMonitor ''http://backend:5000'' 1000)
             ''http://backend:5000'' 1500)
          ''http://backend:5000'' 0 (Responded 200) 2000))
        ''http://backend:5000'' 1 (Responded 200) 2100)
     = [NotifyApiRecovered ''http://backend:5000'']"
  by (simp add: checkApiHealth_resumed_def getHealthStatus_def startMonitoring_def
      stopMonitoring_def new_ApiMonitor_def setInterval_def clearInterval_def no_timers_def
      handleHealthyResponse_def response_ok_def Let_def AList.update.simps AList.delete_eq)

subsection \<open>One timer per monitored URL\<close>

lemma active_foldl_clearInterval:
  "active (foldl clearInterval tm hs) = filter (\<lambda>p. fst p \<notin> set hs) (active tm)"
  by (induction hs arbitrary: tm) (auto simp: clearInterval_def intro: filter_cong)

lemma timers_registered_new: "timers_registered new_ApiMonitor"
  by (simp add: timers_registered_def new_ApiMonitor_def no_timers_def)

lemma timers_registered_stop:
  assumes "timers_registered m"
  shows "timers_registered (stopMonitoring m u)"
    and "timers_for (runtime (stopMonitoring m u)) u = []"
    and "map_of (monitoringIntervals (stopMonitoring m u)) u = None"
  using assms
  by (auto simp: timers_registered_def stopMonitoring_def clearInterval_def timers_for_def
      delete_conv' filter_empty_conv split: option.splits)

lemma timers_registered_start:
  assumes "timers_registered m"
  shows "timers_registered (startMonitoring m u t)"
  using timers_registered_stop(1) [OF assms, of u] timers_registered_stop(2) [OF assms, of u]
  by (auto simp: timers_registered_def startMonitoring_def setInterval_def Let_def update_conv'
      timers_for_def filter_empty_conv)

lemma timers_for_start:
  assumes "timers_registered m"
  shows "timers_for (runtime (startMonitoring m u t)) u = [next_handle (runtime m)]"
  using timers_registered_stop(2) [OF assms, of u]
  by (auto simp: startMonitoring_def setInterval_def Let_def timers_for_def stopMonitoring_def
     clearInterval_def split: option.splits)

lemma timers_registered_resumed:
  "timers_registered m \<Longrightarrow> timers_registered (fst (checkApiHealth_resumed m u a oc t))"
  by (auto simp: timers_registered_def checkApiHealth_resumed_def Let_def
      split: option.splits prod.splits)

lemma timers_registered_check:
  "timers_registered m \<Longrightarrow> timers_registered (fst (checkApiHealth m u oc t))"
  by (auto simp: timers_registered_def checkApiHealth_def checkApiHealth_resumed_def Let_def
      split: option.splits prod.splits)

lemma timers_registered_cleanup:
  assumes "timers_registered m" shows "timers_registered (cleanup m)"
proof -
  have "active (runtime (cleanup m)) = []"
    using assms
    by (auto simp: cleanup_def active_foldl_clearInterval filter_empty_conv timers_registered_def
         dest!: map_of_SomeD intro: rev_image_eqI)
  then show ?thesis by (simp add: timers_registered_def)
qed

lemma timers_registered_step: "timers_registered m \<Longrightarrow> timers_registered (monitor_step m ev)"
  by (cases ev)
     (simp_all add: timers_registered_start timers_registered_stop(1) timers_registered_check
        timers_registered_resumed timers_registered_cleanup)

lemma timers_registered_foldl:
  "timers_registered m \<Longrightarrow> timers_registered (foldl monitor_step m evs)"
  by (induction evs arbitrary: m) (simp_all add: timers_registered_step)

lemma timers_registered_run: "timers_registered (monitor_run evs)"
  unfolding monitor_run_def by (rule timers_registered_foldl [OF timers_registered_new])

text \<open>
  C9. In whatever state the monitor is (any history of starts, stops, probes and cleanups from
  the fresh object), two calls of \<open>startMonitoring\<close> for the same URL in a row leave exactly
  one active interval timer whose callback probes that URL, and it is the one stored in
  \<open>monitoringIntervals\<close> under the URL: the second call clears the timer of the first before
  it registers its own.
\<close>

theorem startMonitoring_twice_one_timer:
  "length (timers_for (runtime (startMonitoring (startMonitoring (monitor_run evs) apiUrl t1) apiUrl t2)) apiUrl) = 1
   \<and> map_of (monitoringIntervals (startMonitoring (startMonitoring (monitor_run evs) apiUrl t1) apiUrl t2)) apiUrl
       = Some (hd (timers_for (runtime (startMonitoring (startMonitoring (monitor_run evs) apiUrl t1) apiUrl t2)) apiUrl))"
proof -
  have r1: "timers_registered (startMonitoring (monitor_run evs) apiUrl t1)"
    by (rule timers_registered_start [OF timers_registered_run])
  have r2: "timers_registered (startMonitoring (startMonitoring (monitor_run evs) apiUrl t1) apiUrl t2)"
    by (rule timers_registered_start [OF r1])
  have one: "timers_for (runtime (startMonitoring (startMonitoring (monitor_run evs) apiUrl t1) apiUrl t2)) apiUrl
      = [next_handle (runtime (startMonitoring (monitor_run evs) apiUrl t1))]"
    by (rule timers_for_start [OF r1])
  have "(next_handle (runtime (startMonitoring (monitor_run evs) apiUrl t1)), apiUrl)
       \<in> set (active (runtime (startMonitoring (startMonitoring (monitor_run evs) apiUrl t1) apiUrl t2)))"
    by (simp add: startMonitoring_def [of "startMonitoring (monitor_run evs) apiUrl t1"] Let_def setInterval_def
          stopMonitoring_def clearInterval_def split: option.splits)
  with r2 have "map_of (monitoringIntervals (startMonitoring (startMonitoring (monitor_run evs) apiUrl t1) apiUrl t2)) apiUrl
       = Some (next_handle (runtime (startMonitoring (monitor_run evs) apiUrl t1)))"
    unfolding timers_registered_def by fastforce
  with one show ?thesis by simp
qed

text \<open>C9 at a concrete history: two backends are being monitored, then \<open>startMonitoring\<close> runs
  twice for the first; its timers 1 and 3 are gone and timer 4 is the only one left for it.\<close>

theorem startMonitoring_twice_one_timer_witness:
  "timers_for (runtime (startMonitoring (startMonitoring
       (monitor_run [StartMonitoring ''http://a:5000'' 5, StartMonitoring ''http://b:5000'' 6])
       ''http://a:5000'' 10) ''http://a:5000'' 20)) ''http://a:5000'' = [4]"
proof -
  have "active (runtime (startMonitoring (startMonitoring
       (monitor_run [StartMonitoring ''http://a:5000'' 5, StartMonitoring ''http://b:5000'' 6])
       ''http://a:5000'' 10) ''http://a:5000'' 20)) = [(2, ''http://b:5000''), (4, ''http://a:5000'')]"
    by (simp add: monitor_run_def startMonitoring_def stopMonitoring_def new_ApiMonitor_def
        setInterval_def clearInterval_def no_timers_def Let_def AList.update.simps AList.delete_eq)
  with startMonitoring_twice_one_timer
         [of "[StartMonitoring ''http://a:5000'' 5, StartMonitoring ''http://b:5000'' 6]"
             "''http://a:5000''" 10 20]
  show ?thesis by (simp add: timers_for_def)
qed

section \<open>Properties of the notification transports\<close>

lemma clock_ok_append: "clock_ok t (xs @ ys) = (clock_ok t xs \<and> clock_ok (last_time t xs) ys)"
  by (induction xs arbitrary: t) auto

lemma send_cases:
  "send es c =
     (if \<not> transporter es \<or> isInCooldown es (call_key c) (sc_now c) then (es, False, [])
      else if sc_mailOk c
      then (es\<lparr>lastNotificationTime := (lastNotificationTime es)(call_key c \<mapsto> sc_sentAt c)\<rparr>,
            True, [SendMail (sc_notification c)])
      else (es, False, [SendMail (sc_notification c)]))"
  by (simp add: send_def sendNotification_def call_key_def Let_def)

lemma cooldown_inv_mono: "cooldown_inv es ds T \<Longrightarrow> T \<le> T' \<Longrightarrow> cooldown_inv es ds T'"
  by (fastforce simp: cooldown_inv_def)

lemma cooldown_inv_record:
  assumes "cooldown_inv es ds T" "0 < T" "T \<le> t"
  shows "cooldown_inv (es\<lparr>lastNotificationTime := (lastNotificationTime es)(k \<mapsto> t)\<rparr>)
           (ds @ [(k, t)]) t"
  unfolding cooldown_inv_def
proof (intro conjI)
  show "transporter (es\<lparr>lastNotificationTime := (lastNotificationTime es)(k \<mapsto> t)\<rparr>)"
    using assms(1) by (simp add: cooldown_inv_def)
  show "\<forall>d\<in>set (ds @ [(k, t)]). 0 < snd d \<and> snd d \<le> t"
    using assms by (fastforce simp: cooldown_inv_def)
  show "\<forall>d\<in>set (ds @ [(k, t)]). \<exists>ta.
       lastNotificationTime (es\<lparr>lastNotificationTime := (lastNotificationTime es)(k \<mapsto> t)\<rparr>) (fst d) = Some ta
       \<and> snd d \<le> ta"
    using assms by (fastforce simp: cooldown_inv_def)
  show "\<forall>ka ta. lastNotificationTime (es\<lparr>lastNotificationTime := (lastNotificationTime es)(k \<mapsto> t)\<rparr>) ka = Some ta
       \<longrightarrow> (ka, ta) \<in> set (ds @ [(k, t)])"
    using assms(1) by (auto simp: cooldown_inv_def)
qed

lemma cooldown_inv_send:
  assumes "cooldown_inv es ds T" "0 < T" "T \<le> sc_now c" "sc_now c \<le> sc_sentAt c"
  shows "cooldown_inv (fst (send es c))
           (ds @ (if fst (snd (send es c)) then [(call_key c, sc_sentAt c)] else [])) (sc_sentAt c)"
proof (cases "fst (snd (send es c))")
  case True
  then have "fst (send es c) = es\<lparr>lastNotificationTime := (lastNotificationTime es)(call_key c \<mapsto> sc_sentAt c)\<rparr>"
    by (auto simp: send_cases split: if_splits)
  with True show ?thesis
    using cooldown_inv_record [OF assms(1,2), of "sc_sentAt c" "call_key c"] assms(3,4) by simp
next
  case False
  then have "fst (send es c) = es"
    by (auto simp: send_cases split: if_splits)
  with False show ?thesis
    using cooldown_inv_mono [OF assms(1), of "sc_sentAt c"] assms(3,4) by simp
qed

lemma cooldown_inv_run:
  assumes "cooldown_inv es ds T" "0 < T" "clock_ok T cs"
  shows "cooldown_inv (email_run es cs) (ds @ deliveries es cs) (last_time T cs)"
  using assms
proof (induction cs arbitrary: es ds T)
  case Nil
  then show ?case by simp
next
  case (Cons c cs)
  from Cons.prems have t: "T \<le> sc_now c" "sc_now c \<le> sc_sentAt c" "clock_ok (sc_sentAt c) cs"
    by simp_all
  have pos: "0 < sc_sentAt c" using t Cons.prems(2) by linarith
  from Cons.IH [OF cooldown_inv_send [OF Cons.prems(1,2) t(1,2)] pos t(3)]
  show ?case by simp
qed

text \<open>Under the invariant, the cooldown test of the code is the statement about the
  deliveries.\<close>

lemma isInCooldown_iff:
  assumes "cooldown_inv es ds T" "T \<le> now"
  shows "isInCooldown es key now = sent_within_cooldown ds key now"
proof (cases "lastNotificationTime es key")
  case None
  then have "key \<notin> fst ` set ds"
    using assms(1) by (fastforce simp: cooldown_inv_def)
  then have "\<not> sent_within_cooldown ds key now"
    by (auto simp: sent_within_cooldown_def list_ex_iff)
  with None show ?thesis by (simp add: isInCooldown_def)
next
  case (Some t)
  with assms(1) have mem: "(key, t) \<in> set ds" and pos: "0 < t"
    by (fastforce simp: cooldown_inv_def)+
  have le: "\<And>t'. (key, t') \<in> set ds \<Longrightarrow> t' \<le> t"
    using assms(1) Some by (fastforce simp: cooldown_inv_def)
  have "sent_within_cooldown ds key now = (now - t < COOLDOWN_MINUTES * 60 * 1000)"
  proof
    assume "sent_within_cooldown ds key now"
    then obtain t' where "(key, t') \<in> set ds" "now - t' < COOLDOWN_MINUTES * 60 * 1000"
      by (auto simp: sent_within_cooldown_def list_ex_iff)
    with le [of t'] show "now - t < COOLDOWN_MINUTES * 60 * 1000" by linarith
  next
    assume "now - t < COOLDOWN_MINUTES * 60 * 1000"
    with mem show "sent_within_cooldown ds key now"
      by (force simp: sent_within_cooldown_def list_ex_iff)
  qed
  with Some pos show ?thesis by (simp add: isInCooldown_def Let_def)
qed

text \<open>
  C3. Take an e-mail service whose transport is configured, any history \<open>cs\<close> of calls of
  \<open>sendNotification\<close> on it since its construction, and a next call \<open>c\<close>, the clock readings
  being positive and never going back. Then
  \<^item> the call hands no mail to the transport exactly when the history holds a successful
    delivery with the same key less than \<open>COOLDOWN_MINUTES\<close> (180) minutes before, and a call
    that skips returns \<^verbatim>\<open>false\<close>;
  \<^item> the call returns \<^verbatim>\<open>true\<close> exactly when it handed the mail over and the transport accepted
    it, and then the timestamp of its key is set to the time read after the delivery;
    in every other case the table of timestamps is left as it was;
  \<^item> so after a call that did not deliver (skipped or failed), any following call \<open>c'\<close>
    behaves as if that call had not been made.
\<close>

theorem cooldown_skips_exactly_recent_successes:
  assumes "transporter (new_EmailService gmailEmail gmailAppPassword)"
    and "0 < t0" "clock_ok t0 (cs @ [c])"
    and "es = email_run (new_EmailService gmailEmail gmailAppPassword) cs"
  shows "((snd (snd (send es c)) = [])
            = sent_within_cooldown
                (deliveries (new_EmailService gmailEmail gmailAppPassword) cs) (call_key c) (sc_now c))
    \<and> (snd (snd (send es c)) = [] \<longrightarrow> \<not> fst (snd (send es c)))
    \<and> (fst (snd (send es c)) = (snd (snd (send es c)) \<noteq> [] \<and> sc_mailOk c))
    \<and> fst (send es c) =
           (if fst (snd (send es c))
            then es\<lparr>lastNotificationTime := (lastNotificationTime es)(call_key c \<mapsto> sc_sentAt c)\<rparr>
            else es)
    \<and> (\<not> fst (snd (send es c)) \<longrightarrow> send (fst (send es c)) c' = send es c')"
proof -
  let ?es0 = "new_EmailService gmailEmail gmailAppPassword"
  have inv0: "cooldown_inv ?es0 [] t0"
    using assms(1) by (simp add: cooldown_inv_def new_EmailService_def)
  from assms(3) have ck: "clock_ok t0 cs" and now: "last_time t0 cs \<le> sc_now c"
    by (simp_all add: clock_ok_append)
  from cooldown_inv_run [OF inv0 assms(2) ck]
  have inv: "cooldown_inv es (deliveries ?es0 cs) (last_time t0 cs)" by (simp add: assms(4))
  then have tr: "transporter es" by (simp add: cooldown_inv_def)
  have 1: "(snd (snd (send es c)) = [])
            = sent_within_cooldown (deliveries ?es0 cs) (call_key c) (sc_now c)"
    using isInCooldown_iff [OF inv now, of "call_key c"] tr by (simp add: send_cases)
  have 2: "snd (snd (send es c)) = [] \<longrightarrow> \<not> fst (snd (send es c))"
    by (simp add: send_cases)
  have 3: "fst (snd (send es c)) = (snd (snd (send es c)) \<noteq> [] \<and> sc_mailOk c)"
    by (simp add: send_cases)
  have 4: "fst (send es c) =
           (if fst (snd (send es c))
            then es\<lparr>lastNotificationTime := (lastNotificationTime es)(call_key c \<mapsto> sc_sentAt c)\<rparr>
            else es)"
    by (simp add: send_cases)
  have 5: "\<not> fst (snd (send es c)) \<longrightarrow> send (fst (send es c)) c' = send es c'"
    by (simp add: send_cases)
  from 1 2 3 4 5 show ?thesis by blast
qed

text \<open>C3 at a concrete history: an error mail about one backend is delivered at 1200 ms; the
  same notification 3.8 s later is skipped, and the deliveries show why. Had the first
  delivery failed, the second call would have gone out.\<close>

theorem cooldown_skips_exactly_recent_successes_witness:
  "transporter (new_EmailService (Some ''ops@gmail.com'') (Some ''app-password''))
   \<and> clock_ok 1
       ([\<lparr>sc_notification = \<lparr>title = ''API down'', severity = Error\<rparr>,
          sc_apiUrl = Some ''http://a:5000'', sc_now = 1000, sc_mailOk = True, sc_sentAt = 1200\<rparr>]
        @ [\<lparr>sc_notification = \<lparr>title = ''API down'', severity = Error\<rparr>,
          sc_apiUrl = Some ''http://a:5000'', sc_now = 5000, sc_mailOk = True, sc_sentAt = 5200\<rparr>])
   \<and> sent_within_cooldown
       (deliveries (new_EmailService (Some ''ops@gmail.com'') (Some ''app-password''))
          [\<lparr>sc_notification = \<lparr>title = ''API down'', severity = Error\<rparr>,
          sc_apiUrl = Some ''http://a:5000'', sc_now = 1000, sc_mailOk = True, sc_sentAt = 1200\<rparr>])
       (call_key \<lparr>sc_notification = \<lparr>title = ''API down'', severity = Error\<rparr>,
          sc_apiUrl = Some ''http://a:5000'', sc_now = 5000, sc_mailOk = True, sc_sentAt = 5200\<rparr>) 5000
   \<and> snd (send (email_run (new_EmailService (Some ''ops@gmail.com'') (Some ''app-password''))
          [\<lparr>sc_notification = \<lparr>title = ''API down'', severity = Error\<rparr>,
          sc_apiUrl = Some ''http://a:5000'', sc_now = 1000, sc_mailOk = True, sc_sentAt = 1200\<rparr>])
        \<lparr>sc_notification = \<lparr>title = ''API down'', severity = Error\<rparr>,
          sc_apiUrl = Some ''http://a:5000'', sc_now = 5000, sc_mailOk = True, sc_sentAt = 5200\<rparr>)
      = (False, [])
   \<and> snd (send (fst (send (new_EmailService (Some ''ops@gmail.com'') (Some ''app-password''))
          \<lparr>sc_notification = \<lparr>title = ''API down'', severity = Error\<rparr>,
          sc_apiUrl = Some ''http://a:5000'', sc_now = 1000, sc_mailOk = False, sc_sentAt = 1200\<rparr>))
        \<lparr>sc_notification = \<lparr>title = ''API down'', severity = Error\<rparr>,
          sc_apiUrl = Some ''http://a:5000'', sc_now = 5000, sc_mailOk = True, sc_sentAt = 5200\<rparr>)
      = (True, [SendMail \<lparr>title = ''API down'', severity = Error\<rparr>])"
proof -
  let ?f = "\<lparr>sc_notification = \<lparr>title = ''API down'', severity = Error\<rparr>,
          sc_apiUrl = Some ''http://a:5000'', sc_now = 1000, sc_mailOk = False, sc_sentAt = 1200\<rparr>"
  let ?es0 = "new_EmailService (Some ''ops@gmail.com'') (Some ''app-password'')"
  let ?c1 = "\<lparr>sc_notification = \<lparr>title = ''API down'', severity = Error\<rparr>,
          sc_apiUrl = Some ''http://a:5000'', sc_now = 1000, sc_mailOk = True, sc_sentAt = 1200\<rparr>"
  let ?c2 = "\<lparr>sc_notification = \<lparr>title = ''API down'', severity = Error\<rparr>,
          sc_apiUrl = Some ''http://a:5000'', sc_now = 5000, sc_mailOk = True, sc_sentAt = 5200\<rparr>"
  have tr: "transporter ?es0" by (simp add: new_EmailService_def)
  have ck: "clock_ok 1 ([?c1] @ [?c2])" by simp
  have d: "deliveries ?es0 [?c1] = [(''error_API down_http://a:5000'', 1200)]"
    by (simp add: send_cases new_EmailService_def isInCooldown_def call_key_def cooldown_key_def)
  have sw: "sent_within_cooldown (deliveries ?es0 [?c1]) (call_key ?c2) 5000"
    unfolding d
    by (simp add: sent_within_cooldown_def call_key_def cooldown_key_def COOLDOWN_MINUTES_def)
  from cooldown_skips_exactly_recent_successes [OF tr _ ck refl, of ?c2] sw
  have "snd (snd (send (email_run ?es0 [?c1]) ?c2)) = []" "\<not> fst (snd (send (email_run ?es0 [?c1]) ?c2))"
    by simp_all
  then have skip: "snd (send (email_run ?es0 [?c1]) ?c2) = (False, [])"
    by (simp add: prod_eq_iff)
  have ckf: "clock_ok 1 ([] @ [?f])" by simp
  have nf: "\<not> fst (snd (send ?es0 ?f))" by (simp add: send_cases)
  have direct: "snd (send ?es0 ?c2) = (True, [SendMail \<lparr>title = ''API down'', severity = Error\<rparr>])"
    by (simp add: send_cases new_EmailService_def isInCooldown_def)
  from cooldown_skips_exactly_recent_successes [OF tr _ ckf refl, of ?c2] nf
  have "send (fst (send ?es0 ?f)) ?c2 = send ?es0 ?c2" by simp
  with direct have retry: "snd (send (fst (send ?es0 ?f)) ?c2)
      = (True, [SendMail \<lparr>title = ''API down'', severity = Error\<rparr>])"
    by simp
  from tr ck sw skip retry show ?thesis by blast
qed

lemma cooldown_key_inject_url:
  assumes "severity n1 = severity n2" "title n1 = title n2" "u1 \<noteq> u2" "u1 \<noteq> []" "u2 \<noteq> []"
  shows "cooldown_key n1 (Some u1) \<noteq> cooldown_key n2 (Some u2)"
  using assms by (simp add: cooldown_key_def)

text \<open>
  C4, as the code has it. In the e-mail service the cooldown key ends in the target URL, so
  for two notifications of equal severity and title about different, non-empty URLs the keys
  differ, sending the first changes nothing in whether the second is in cooldown, and the
  second is answered (returned value and mail handed over) as if the first had never been
  sent. The Discord service has no such scoping.
\<close>

theorem email_cooldown_is_per_url:
  assumes "severity n1 = severity n2" "title n1 = title n2" "u1 \<noteq> u2" "u1 \<noteq> []" "u2 \<noteq> []"
  shows "cooldown_key n1 (Some u1) \<noteq> cooldown_key n2 (Some u2)
    \<and> isInCooldown (fst (sendNotification es n1 (Some u1) now mailOk sentAt))
          (cooldown_key n2 (Some u2)) t
        = isInCooldown es (cooldown_key n2 (Some u2)) t
    \<and> snd (sendNotification (fst (sendNotification es n1 (Some u1) now mailOk sentAt))
             n2 (Some u2) now' mailOk' sentAt')
        = snd (sendNotification es n2 (Some u2) now' mailOk' sentAt')"
proof -
  have ne: "cooldown_key n1 (Some u1) \<noteq> cooldown_key n2 (Some u2)"
    by (rule cooldown_key_inject_url [OF assms])
  have look: "lastNotificationTime (fst (sendNotification es n1 (Some u1) now mailOk sentAt))
                (cooldown_key n2 (Some u2))
              = lastNotificationTime es (cooldown_key n2 (Some u2))"
    using ne by (simp add: sendNotification_def Let_def)
  have tr: "transporter (fst (sendNotification es n1 (Some u1) now mailOk sentAt)) = transporter es"
    by (simp add: sendNotification_def Let_def)
  have cd: "\<And>t. isInCooldown (fst (sendNotification es n1 (Some u1) now mailOk sentAt))
          (cooldown_key n2 (Some u2)) t
        = isInCooldown es (cooldown_key n2 (Some u2)) t"
    by (simp add: isInCooldown_def look)
  have "snd (sendNotification (fst (sendNotification es n1 (Some u1) now mailOk sentAt))
             n2 (Some u2) now' mailOk' sentAt')
        = snd (sendNotification es n2 (Some u2) now' mailOk' sentAt')"
    unfolding sendNotification_def [of _ n2] by (simp add: Let_def cd tr)
  with ne cd show ?thesis by blast
qed

text \<open>The amended C4 at two backends: the error mail about the first is delivered, and the
  error mail about the second, 800 ms later, is delivered too.\<close>

theorem email_cooldown_is_per_url_witness:
  "snd (notifyApiConnectionError
          (fst (notifyApiConnectionError (new_EmailService (Some ''ops@gmail.com'') (Some ''app-password''))
                  ''http://a:5000'' (JsError ''Error'' ''HTTP 503'') 1 1000 True 1200))
          ''http://b:5000'' (JsError ''Error'' ''HTTP 503'') 1 2000 True 2200)
     = (True, [SendMail \<lparr>title = title_connection_error, severity = Error\<rparr>])"
proof -
  let ?n = "\<lparr>title = title_connection_error, severity = Error\<rparr>"
  let ?es0 = "new_EmailService (Some ''ops@gmail.com'') (Some ''app-password'')"
  have "snd (sendNotification ?es0 ?n (Some ''http://b:5000'') 2000 True 2200) = (True, [SendMail ?n])"
    by (simp add: sendNotification_def new_EmailService_def isInCooldown_def)
  with email_cooldown_is_per_url [of ?n ?n "''http://a:5000''" "''http://b:5000''" ?es0 1000 True 1200 0 2000 True 2200]
  show ?thesis by (simp add: notifyApiConnectionError_def)
qed

text \<open>
  C4 as the specification words it fails in the Discord service, whose key is severity and
  title only: once the connection-error notification about one backend has been posted, the
  one about another backend 800 ms later is skipped (\<^verbatim>\<open>false\<close>, nothing posted).
\<close>

theorem discord_cooldown_shared_counterexample:
  "snd (NotificationService_notifyApiConnectionError
          (fst (NotificationService_notifyApiConnectionError
                  (new_NotificationService (Some ''https://discord.com/api/webhooks/1/x''))
                  ''http://a:5000'' (JsError ''Error'' ''HTTP 503'') 1 1000 True 1200))
          ''http://b:5000'' (JsError ''Error'' ''HTTP 503'') 1 2000 True 2200)
     = (False, [])"
  by (simp add: NotificationService_notifyApiConnectionError_def NotificationService_sendNotification_def
      NotificationService_isInCooldown_def new_NotificationService_def sendDiscordNotification_def
      NotificationService_COOLDOWN_MINUTES_def Let_def)


section \<open>Properties of the configuration route\<close>

text \<open>
  C5, as the code has it. The schema is checked before the password: a body that fails it
  (a missing or non-string field, a malformed URL, an empty password) is answered 400
  whatever its password; a valid body whose password is not the admin secret is answered 401;
  in both cases the server state is untouched. A valid body with the admin secret is answered
  200 and the stored record becomes: the URL of the request, active, the description of the
  request or the fixed text when it is absent or empty, the date of the update, \<^verbatim>\<open>admin\<close> as
  author. Of the previous record only the id survives (a fresh one is drawn when there was no
  record or its id was empty); in particular its description does not.
\<close>

theorem post_api_config_result:
  "(updateApiConfigSchema_parse urlWellFormed body = None \<longrightarrow>
      post_api_config env sv body urlWellFormed now uuid monitorNow
        = (sv, \<lparr>resp_status = 400, resp_body = ErrorBody BadRequestData\<rparr>))
   \<and> (\<forall>r. updateApiConfigSchema_parse urlWellFormed body = Some r
           \<and> req_adminPassword r \<noteq> ADMIN_PASSWORD env \<longrightarrow>
      post_api_config env sv body urlWellFormed now uuid monitorNow
        = (sv, \<lparr>resp_status = 401, resp_body = ErrorBody AdminPasswordWrong\<rparr>))
   \<and> (\<forall>r. updateApiConfigSchema_parse urlWellFormed body = Some r
           \<and> req_adminPassword r = ADMIN_PASSWORD env \<longrightarrow>
      resp_status (snd (post_api_config env sv body urlWellFormed now uuid monitorNow)) = 200
      \<and> apiConfig (storage (fst (post_api_config env sv body urlWellFormed now uuid monitorNow)))
          = Some \<lparr>cfg_id = (case apiConfig (storage sv) of
                              None \<Rightarrow> uuid
                            | Some old \<Rightarrow> if cfg_id old = [] then uuid else cfg_id old),
                  cfg_apiUrl = req_apiUrl r, cfg_isActive = True,
                  cfg_description =
                    Some (case req_description r of
                            None \<Rightarrow> updated_description
                          | Some d \<Rightarrow> if d = [] then updated_description else d),
                  cfg_updatedAt = now, cfg_updatedBy = Some ''admin''\<rparr>)"
  by (simp add: post_api_config_def setApiConfig_def Let_def)

text \<open>The amended C5 at concrete requests against the freshly started server: a body without
  a URL is answered 400 and the password \<^verbatim>\<open>guess\<close> 401, and both change nothing; the password
  \<^verbatim>\<open>fculab224\<close> with only a URL in the body replaces the record, and the new description is
  the fixed text, not the previous one.\<close>

theorem post_api_config_result_witness:
  "post_api_config None \<lparr>storage = new_MemStorage ''uuid-1'' 1000, apiMonitor = new_ApiMonitor\<rparr>
      \<lparr>body_apiUrl = None, body_description = None,
       body_adminPassword = Some (JString ''fculab224'')\<rparr> True 2000 ''uuid-2'' 2001
     = (\<lparr>storage = new_MemStorage ''uuid-1'' 1000, apiMonitor = new_ApiMonitor\<rparr>,
        \<lparr>resp_status = 400, resp_body = ErrorBody BadRequestData\<rparr>)
   \<and> post_api_config None \<lparr>storage = new_MemStorage ''uuid-1'' 1000, apiMonitor = new_ApiMonitor\<rparr>
      \<lparr>body_apiUrl = Some (JString ''https://new.example''), body_description = None,
       body_adminPassword = Some (JString ''guess'')\<rparr> True 2000 ''uuid-2'' 2001
     = (\<lparr>storage = new_MemStorage ''uuid-1'' 1000, apiMonitor = new_ApiMonitor\<rparr>,
        \<lparr>resp_status = 401, resp_body = ErrorBody AdminPasswordWrong\<rparr>)
   \<and> apiConfig (storage (fst (post_api_config None
        \<lparr>storage = new_MemStorage ''uuid-1'' 1000, apiMonitor = new_ApiMonitor\<rparr>
        \<lparr>body_apiUrl = Some (JString ''https://new.example''), body_description = None,
         body_adminPassword = Some (JString ''fculab224'')\<rparr> True 2000 ''uuid-2'' 2001)))
     = Some \<lparr>cfg_id = ''uuid-1'', cfg_apiUrl = ''https://new.example'', cfg_isActive = True,
             cfg_description = Some updated_description, cfg_updatedAt = 2000,
             cfg_updatedBy = Some ''admin''\<rparr>"
proof -
  let ?sv = "\<lparr>storage = new_MemStorage ''uuid-1'' 1000, apiMonitor = new_ApiMonitor\<rparr>"
  let ?b1 = "\<lparr>body_apiUrl = Some (JString ''https://new.example''), body_description = None,
       body_adminPassword = Some (JString ''guess'')\<rparr>"
  let ?b2 = "\<lparr>body_apiUrl = Some (JString ''https://new.example''), body_description = None,
       body_adminPassword = Some (JString ''fculab224'')\<rparr>"
  have p1: "updateApiConfigSchema_parse True ?b1 =
      Some \<lparr>req_apiUrl = ''https://new.example'', req_description = None, req_adminPassword = ''guess''\<rparr>"
    by (simp add: updateApiConfigSchema_parse_def)
  have p2: "updateApiConfigSchema_parse True ?b2 =
      Some \<lparr>req_apiUrl = ''https://new.example'', req_description = None, req_adminPassword = ''fculab224''\<rparr>"
    by (simp add: updateApiConfigSchema_parse_def)
  let ?b0 = "\<lparr>body_apiUrl = None, body_description = None,
       body_adminPassword = Some (JString ''fculab224'')\<rparr>"
  have p0: "updateApiConfigSchema_parse True ?b0 = None"
    by (simp add: updateApiConfigSchema_parse_def)
  have z: "post_api_config None ?sv ?b0 True 2000 ''uuid-2'' 2001
     = (?sv, \<lparr>resp_status = 400, resp_body = ErrorBody BadRequestData\<rparr>)"
    using post_api_config_result [of True ?b0 None ?sv 2000 "''uuid-2''" 2001] p0
    by simp
  have a: "post_api_config None ?sv ?b1 True 2000 ''uuid-2'' 2001
     = (?sv, \<lparr>resp_status = 401, resp_body = ErrorBody AdminPasswordWrong\<rparr>)"
    using post_api_config_result [of True ?b1 None ?sv 2000 "''uuid-2''" 2001] p1
    by (simp add: ADMIN_PASSWORD_def)
  have b: "apiConfig (storage (fst (post_api_config None ?sv ?b2 True 2000 ''uuid-2'' 2001)))
     = Some \<lparr>cfg_id = ''uuid-1'', cfg_apiUrl = ''https://new.example'', cfg_isActive = True,
             cfg_description = Some updated_description, cfg_updatedAt = 2000,
             cfg_updatedBy = Some ''admin''\<rparr>"
    using post_api_config_result [of True ?b2 None ?sv 2000 "''uuid-2''" 2001] p2
    by (simp add: ADMIN_PASSWORD_def new_MemStorage_def)
  from z a b show ?thesis by blast
qed

text \<open>
  C5 as the specification words it fails twice. A request with the empty password, which is
  not the admin secret, is answered 400, not 401. And the replacement is not total: after an
  update with the admin secret the record still has the id of the record it replaces.
\<close>

theorem post_api_config_counterexample:
  "'''' \<noteq> ADMIN_PASSWORD None
   \<and> resp_status (snd (post_api_config None
        \<lparr>storage = new_MemStorage ''uuid-1'' 1000, apiMonitor = new_ApiMonitor\<rparr>
        \<lparr>body_apiUrl = Some (JString ''https://new.example''), body_description = None,
         body_adminPassword = Some (JString '''')\<rparr> True 2000 ''uuid-2'' 2001)) = 400
   \<and> map_option cfg_id (apiConfig (storage (fst (post_api_config None
        \<lparr>storage = new_MemStorage ''uuid-1'' 1000, apiMonitor = new_ApiMonitor\<rparr>
        \<lparr>body_apiUrl = Some (JString ''https://new.example''), body_description = None,
         body_adminPassword = Some (JString ''fculab224'')\<rparr> True 2000 ''uuid-2'' 2001))))
     = Some ''uuid-1''"
  by (simp add: post_api_config_def updateApiConfigSchema_parse_def ADMIN_PASSWORD_def
      setApiConfig_def new_MemStorage_def Let_def)


section \<open>Properties of the polling client\<close>

lemma one_poller_new: "one_poller (new_browser url env h)"
  by (simp add: one_poller_def new_browser_def new_AudioSeparationAPI_def no_timers_def)

lemma active_clear_stored:
  assumes "one_poller w" "pollingInterval (api w) = Some h"
  shows "active (clearInterval (poll_timers w) h) = []"
proof -
  from assms have "map fst (active (poll_timers w)) = [h]" by (simp add: one_poller_def)
  then obtain x where "active (poll_timers w) = [(h, x)]"
    by (cases "active (poll_timers w)") auto
  then show ?thesis by (simp add: clearInterval_def)
qed

lemma active_none_stored:
  assumes "one_poller w" "pollingInterval (api w) = None"
  shows "active (poll_timers w) = []"
  using assms by (simp add: one_poller_def)

lemma stopPolling_result:
  assumes "one_poller w"
  shows "active (poll_timers (stopPolling w)) = []"
    and "pollingInterval (api (stopPolling w)) = None"
    and "ui (stopPolling w) = ui w"
    and "one_poller (stopPolling w)"
proof -
  show a: "active (poll_timers (stopPolling w)) = []"
    using active_clear_stored [OF assms] active_none_stored [OF assms]
    by (auto simp: stopPolling_def split: option.splits)
  show b: "pollingInterval (api (stopPolling w)) = None"
    by (simp add: stopPolling_def split: option.splits)
  show "ui (stopPolling w) = ui w"
    by (simp add: stopPolling_def split: option.splits)
  from a b show "one_poller (stopPolling w)" by (simp add: one_poller_def)
qed

lemma startPolling_result:
  assumes "one_poller w"
  shows "active (poll_timers (startPolling w taskId cb)) = [(next_handle (poll_timers w), (taskId, cb))]"
    and "pollingInterval (api (startPolling w taskId cb)) = Some (next_handle (poll_timers w))"
    and "ui (startPolling w taskId cb) = ui w"
    and "one_poller (startPolling w taskId cb)"
proof -
  show a: "active (poll_timers (startPolling w taskId cb)) = [(next_handle (poll_timers w), (taskId, cb))]"
    using active_clear_stored [OF assms] active_none_stored [OF assms]
    by (auto simp: startPolling_def setInterval_def clearInterval_def Let_def split: option.splits)
  show b: "pollingInterval (api (startPolling w taskId cb)) = Some (next_handle (poll_timers w))"
    by (simp add: startPolling_def setInterval_def clearInterval_def Let_def split: option.splits)
  show "ui (startPolling w taskId cb) = ui w"
    by (simp add: startPolling_def setInterval_def Let_def split: option.splits prod.splits)
  from a b show "one_poller (startPolling w taskId cb)" by (simp add: one_poller_def)
qed

lemma one_poller_ui: "one_poller (w\<lparr>ui := x\<rparr>) = one_poller w"
  by (simp add: one_poller_def)

lemma one_poller_answer:
  assumes "one_poller w"
  shows "one_poller (poll_answer w cb outcome)"
  using assms stopPolling_result(4) [of "w\<lparr>ui := onUpdate cb st (ui w)\<rparr>" for st]
    stopPolling_result(4) [OF assms]
  by (cases outcome) (simp_all add: poll_answer_def Let_def one_poller_ui)

lemma one_poller_tick:
  assumes "one_poller w"
  shows "one_poller (fst (poll_tick w h outcome))"
  using assms one_poller_answer [OF assms]
  by (simp add: poll_tick_def split: option.splits prod.splits)

lemma one_poller_step: "one_poller w \<Longrightarrow> one_poller (client_step w ev)"
  by (cases ev)
     (simp_all add: startPolling_result(4) stopPolling_result(4) one_poller_tick one_poller_answer)

lemma one_poller_run: "one_poller w \<Longrightarrow> one_poller (client_run w evs)"
  unfolding client_run_def by (induction evs arbitrary: w) (simp_all add: one_poller_step)

lemma one_poller_api_field: "one_poller (w\<lparr>api := (api w)\<lparr>api_currentTaskId := x\<rparr>\<rparr>) = one_poller w"
  by (simp add: one_poller_def)

lemma one_poller_hook_step: "one_poller w \<Longrightarrow> one_poller (hook_step w ev)"
proof (cases ev)
  case (Uploaded taskId)
  assume "one_poller w"
  then have "one_poller (w\<lparr>api := (api w)\<lparr>api_currentTaskId := Some taskId\<rparr>,
          ui := (ui w)\<lparr>isProcessing := True, progress := 0, error := None, result := None,
                       hook_currentTaskId := Some taskId, status := processing_text\<rparr>\<rparr>)"
    by (simp add: one_poller_def)
  from startPolling_result(4) [OF this] Uploaded show ?thesis
    by (simp add: processAudio_uploaded_def)
next
  case Reset
  assume "one_poller w"
  from stopPolling_result(4) [OF this] Reset show ?thesis
    by (simp add: reset_def Let_def one_poller_ui)
next
  case (Tick h outcome)
  assume "one_poller w"
  from one_poller_tick [OF this] Tick show ?thesis by simp
next
  case (Answer outcome)
  assume "one_poller w"
  from one_poller_answer [OF this] Answer show ?thesis by simp
qed

text \<open>An answer that reports a failure, whenever it arrives: the error is stored, processing
  is off, and the object is left with no handle and no active timer.\<close>

lemma poll_answer_failure:
  assumes "one_poller w" "surfaced_error outcome = Some msg"
  shows "error (ui (poll_answer w hook_callbacks outcome)) = Some msg"
    and "\<not> isProcessing (ui (poll_answer w hook_callbacks outcome))"
    and "pollingInterval (api (poll_answer w hook_callbacks outcome)) = None"
    and "active (poll_timers (poll_answer w hook_callbacks outcome)) = []"
proof -
  have inv': "\<And>x. one_poller (w\<lparr>ui := x\<rparr>)" using assms(1) by (simp add: one_poller_ui)
  have st: "\<exists>x. poll_answer w hook_callbacks outcome
              = (stopPolling (w\<lparr>ui := x\<rparr>))\<lparr>ui := (ui (stopPolling (w\<lparr>ui := x\<rparr>)))\<lparr>error := Some msg, isProcessing := False\<rparr>\<rparr>"
  proof (cases outcome)
    case (StatusResponse t)
    with assms(2) have f: "task_status t = Failed"
      and m: "msg = (case task_error t of None \<Rightarrow> processing_failed_text
                      | Some e \<Rightarrow> if e = [] then processing_failed_text else e)"
      by (auto split: if_splits)
    show ?thesis
      using StatusResponse f m
      by (auto simp: poll_answer_def Let_def hook_callbacks_def)
  next
    case (StatusThrew thrown)
    with assms(2) have m: "msg = (case thrown of Some msg \<Rightarrow> msg | None \<Rightarrow> ''Unknown polling error'')"
      by simp
    have "w\<lparr>ui := ui w\<rparr> = w" by simp
    then show ?thesis
      using StatusThrew m
      by (auto simp: poll_answer_def Let_def hook_callbacks_def intro!: exI [of _ "ui w"])
  qed
  then obtain x where w': "poll_answer w hook_callbacks outcome
      = (stopPolling (w\<lparr>ui := x\<rparr>))\<lparr>ui := (ui (stopPolling (w\<lparr>ui := x\<rparr>)))\<lparr>error := Some msg, isProcessing := False\<rparr>\<rparr>"
    by blast
  show "error (ui (poll_answer w hook_callbacks outcome)) = Some msg"
    and "\<not> isProcessing (ui (poll_answer w hook_callbacks outcome))"
    by (simp_all add: w')
  show "pollingInterval (api (poll_answer w hook_callbacks outcome)) = None"
    using stopPolling_result(2) [OF inv', of x] by (simp add: w')
  show "active (poll_timers (poll_answer w hook_callbacks outcome)) = []"
    using stopPolling_result(1) [OF inv', of x] by (simp add: w')
qed

lemma one_poller_hook_foldl: "one_poller w \<Longrightarrow> one_poller (foldl hook_step w evs)"
  by (induction evs arbitrary: w) (simp_all add: one_poller_hook_step)

lemma one_poller_hook_run: "one_poller (hook_run evs url env)"
  unfolding hook_run_def by (rule one_poller_hook_foldl [OF one_poller_new])

text \<open>
  C10. Whatever calls, timer ticks and late answers to status requests an
  \<open>AudioSeparationAPI\<close> object has seen since its construction, at most one polling timer of
  it is active, and it is the one whose handle the object stores. \<open>startPolling\<close> leaves the timer of the new task as the only active one
  and calls nobody's callback (the state of the callbacks' owner is as before), so the
  polling of the task before is cancelled without a word; \<open>stopPolling\<close> leaves none.
\<close>

theorem at_most_one_polling_timer:
  "length (active (poll_timers (client_run (new_browser url env h0) evs))) \<le> 1
   \<and> map fst (active (poll_timers (client_run (new_browser url env h0) evs)))
       = (case pollingInterval (api (client_run (new_browser url env h0) evs)) of
            None \<Rightarrow> [] | Some h \<Rightarrow> [h])
   \<and> active (poll_timers (startPolling (client_run (new_browser url env h0) evs) taskId cb))
       = [(next_handle (poll_timers (client_run (new_browser url env h0) evs)), (taskId, cb))]
   \<and> pollingInterval (api (startPolling (client_run (new_browser url env h0) evs) taskId cb))
       = Some (next_handle (poll_timers (client_run (new_browser url env h0) evs)))
   \<and> ui (startPolling (client_run (new_browser url env h0) evs) taskId cb)
       = ui (client_run (new_browser url env h0) evs)
   \<and> active (poll_timers (stopPolling (client_run (new_browser url env h0) evs))) = []
   \<and> pollingInterval (api (stopPolling (client_run (new_browser url env h0) evs))) = None"
proof -
  let ?w = "client_run (new_browser url env h0) evs"
  have inv: "one_poller ?w"
    by (rule one_poller_run [OF one_poller_new])
  then have m: "map fst (active (poll_timers ?w))
       = (case pollingInterval (api ?w) of None \<Rightarrow> [] | Some h \<Rightarrow> [h])"
    by (simp add: one_poller_def)
  have "length (map fst (active (poll_timers ?w))) \<le> 1"
    unfolding m by (simp split: option.splits)
  then have l: "length (active (poll_timers ?w)) \<le> 1" by simp
  from l m startPolling_result(1,2,3) [OF inv, of taskId cb] stopPolling_result(1,2) [OF inv]
  show ?thesis by blast
qed

text \<open>
  C7. In any state the hook and its API object reach (through uploads that succeed, resets,
  timer ticks and late answers), while a task of \<open>processAudio\<close> is being polled (timer \<open>h\<close> is
  active, with the callbacks of \<open>processAudio\<close>), a tick whose status request throws, or whose
  snapshot has status \<^verbatim>\<open>failed\<close>, issues its one status request and leaves the hook failed:
  the error text is stored and shown, processing is off. The timer is cleared and the object
  stores no handle, so timer \<open>h\<close> never fires again: a later tick of it would issue no request
  and change nothing. A thrown request error takes this same path; it is not skipped. The
  same holds of the answer alone, in whatever reachable state \<open>w'\<close> it arrives: the error is
  stored, processing is off, no handle is stored and no timer is active.
\<close>

theorem poll_failure_fails_task_and_stops_polling:
  assumes "w = hook_run evs url env"
    and "map_of (active (poll_timers w)) h = Some (taskId, hook_callbacks)"
    and "surfaced_error outcome = Some msg"
  shows "snd (poll_tick w h outcome) = [GetTaskStatus (baseURL (api w) @ ''/api/status/'' @ taskId)]
    \<and> error (ui (fst (poll_tick w h outcome))) = Some msg
    \<and> \<not> isProcessing (ui (fst (poll_tick w h outcome)))
    \<and> pollingInterval (api (fst (poll_tick w h outcome))) = None
    \<and> active (poll_timers (fst (poll_tick w h outcome))) = []
    \<and> poll_tick (fst (poll_tick w h outcome)) h outcome' = (fst (poll_tick w h outcome), [])
    \<and> error (ui (poll_answer (hook_run evs' url' env') hook_callbacks outcome)) = Some msg
    \<and> \<not> isProcessing (ui (poll_answer (hook_run evs' url' env') hook_callbacks outcome))
    \<and> pollingInterval (api (poll_answer (hook_run evs' url' env') hook_callbacks outcome)) = None
    \<and> active (poll_timers (poll_answer (hook_run evs' url' env') hook_callbacks outcome)) = []"
proof -
  have inv: "one_poller w"
    unfolding assms(1) by (rule one_poller_hook_run)
  have t: "poll_tick w h outcome =
      (poll_answer w hook_callbacks outcome, [GetTaskStatus (baseURL (api w) @ ''/api/status/'' @ taskId)])"
    using assms(2) by (simp add: poll_tick_def)
  have eff: "snd (poll_tick w h outcome) = [GetTaskStatus (baseURL (api w) @ ''/api/status/'' @ taskId)]"
    by (simp add: t)
  have e: "error (ui (fst (poll_tick w h outcome))) = Some msg"
    and p: "\<not> isProcessing (ui (fst (poll_tick w h outcome)))"
    and i: "pollingInterval (api (fst (poll_tick w h outcome))) = None"
    and a: "active (poll_timers (fst (poll_tick w h outcome))) = []"
    using poll_answer_failure [OF inv assms(3)] by (simp_all add: t)
  have again: "poll_tick (fst (poll_tick w h outcome)) h outcome' = (fst (poll_tick w h outcome), [])"
    using a by (simp add: poll_tick_def [of "fst (poll_tick w h outcome)"])
  have late: "error (ui (poll_answer (hook_run evs' url' env') hook_callbacks outcome)) = Some msg"
    "\<not> isProcessing (ui (poll_answer (hook_run evs' url' env') hook_callbacks outcome))"
    "pollingInterval (api (poll_answer (hook_run evs' url' env') hook_callbacks outcome)) = None"
    "active (poll_timers (poll_answer (hook_run evs' url' env') hook_callbacks outcome)) = []"
    using poll_answer_failure [OF one_poller_hook_run assms(3), of evs' url' env'] by simp_all
  from eff e p i a again late show ?thesis by blast
qed


text \<open>C7 at a concrete run: the upload answers with task \<^verbatim>\<open>abc\<close>, the first poll reports 40
  percent, the second reports the failure \<^verbatim>\<open>decode error\<close>; or else the second request
  throws \<^verbatim>\<open>Failed to fetch\<close>, which ends the polling in the same way. And a late answer:
  the request of a tick is still waiting when \<open>reset\<close> runs, and then throws; the error is
  stored in the state that \<open>reset\<close> has just cleared.\<close>

theorem poll_failure_fails_task_and_stops_polling_witness:
  "map_of (active (poll_timers (hook_run
       [Uploaded ''abc'',
        Tick 1 (StatusResponse \<lparr>task_id = ''abc'', task_status = Processing, task_progress = 40,
                                task_message = ''separating'', task_error = None\<rparr>)] None None))) 1
     = Some (''abc'', hook_callbacks)
   \<and> surfaced_error (StatusResponse \<lparr>task_id = ''abc'', task_status = Failed, task_progress = 40,
                                task_message = ''failed'', task_error = Some ''decode error''\<rparr>)
     = Some ''decode error''
   \<and> isProcessing (ui (hook_run
       [Uploaded ''abc'',
        Tick 1 (StatusResponse \<lparr>task_id = ''abc'', task_status = Processing, task_progress = 40,
                                task_message = ''separating'', task_error = None\<rparr>)] None None))
   \<and> error (ui (fst (poll_tick (hook_run
       [Uploaded ''abc'',
        Tick 1 (StatusResponse \<lparr>task_id = ''abc'', task_status = Processing, task_progress = 40,
                                task_message = ''separating'', task_error = None\<rparr>)] None None) 1
       (StatusResponse \<lparr>task_id = ''abc'', task_status = Failed, task_progress = 40,
                                task_message = ''failed'', task_error = Some ''decode error''\<rparr>))))
     = Some ''decode error''
   \<and> \<not> isProcessing (ui (fst (poll_tick (hook_run
       [Uploaded ''abc'',
        Tick 1 (StatusResponse \<lparr>task_id = ''abc'', task_status = Processing, task_progress = 40,
                                task_message = ''separating'', task_error = None\<rparr>)] None None) 1
       (StatusResponse \<lparr>task_id = ''abc'', task_status = Failed, task_progress = 40,
                                task_message = ''failed'', task_error = Some ''decode error''\<rparr>))))
   \<and> active (poll_timers (fst (poll_tick (hook_run
       [Uploaded ''abc'',
        Tick 1 (StatusResponse \<lparr>task_id = ''abc'', task_status = Processing, task_progress = 40,
                                task_message = ''separating'', task_error = None\<rparr>)] None None) 1
       (StatusResponse \<lparr>task_id = ''abc'', task_status = Failed, task_progress = 40,
                                task_message = ''failed'', task_error = Some ''decode error''\<rparr>))))
     = []
   \<and> error (ui (fst (poll_tick (hook_run
       [Uploaded ''abc'',
        Tick 1 (StatusResponse \<lparr>task_id = ''abc'', task_status = Processing, task_progress = 40,
                                task_message = ''separating'', task_error = None\<rparr>)] None None) 1
       (StatusThrew (Some ''Failed to fetch'')))))
     = Some ''Failed to fetch''
   \<and> active (poll_timers (fst (poll_tick (hook_run
       [Uploaded ''abc'',
        Tick 1 (StatusResponse \<lparr>task_id = ''abc'', task_status = Processing, task_progress = 40,
                                task_message = ''separating'', task_error = None\<rparr>)] None None) 1
       (StatusThrew (Some ''Failed to fetch'')))))
     = []
   \<and> error (ui (hook_run [Uploaded ''abc'', Reset] None None)) = None
   \<and> error (ui (poll_answer (hook_run [Uploaded ''abc'', Reset] None None) hook_callbacks
       (StatusThrew (Some ''Failed to fetch''))))
     = Some ''Failed to fetch''
   \<and> active (poll_timers (poll_answer (hook_run [Uploaded ''abc'', Reset] None None) hook_callbacks
       (StatusThrew (Some ''Failed to fetch''))))
     = []"
proof -
  let ?evs = "[Uploaded ''abc'',
        Tick 1 (StatusResponse \<lparr>task_id = ''abc'', task_status = Processing, task_progress = 40,
                                task_message = ''separating'', task_error = None\<rparr>)]"
  let ?bad = "StatusResponse \<lparr>task_id = ''abc'', task_status = Failed, task_progress = 40,
                                task_message = ''failed'', task_error = Some ''decode error''\<rparr>"
  have run: "hook_run ?evs None None =
      \<lparr>api = \<lparr>baseURL = ''http://backend:5000'', api_currentTaskId = Some ''abc'', pollingInterval = Some 1\<rparr>,
       poll_timers = \<lparr>active = [(1, (''abc'', hook_callbacks))], next_handle = 2\<rparr>,
       ui = \<lparr>isProcessing = True, progress = 40, status = ''separating'', result = None, error = None,
             hook_currentTaskId = Some ''abc''\<rparr>\<rparr>"
    by (simp add: hook_run_def new_browser_def new_AudioSeparationAPI_def no_timers_def
        initial_hook_state_def processAudio_uploaded_def startPolling_def setInterval_def Let_def
        poll_tick_def poll_answer_def, simp add: hook_callbacks_def)
  have act: "map_of (active (poll_timers (hook_run ?evs None None))) 1 = Some (''abc'', hook_callbacks)"
    unfolding run by simp
  have se: "surfaced_error ?bad = Some ''decode error''" by simp
  have ip: "isProcessing (ui (hook_run ?evs None None))" unfolding run by simp
  have se2: "surfaced_error (StatusThrew (Some ''Failed to fetch'')) = Some ''Failed to fetch''"
    by simp
  have cleared: "error (ui (hook_run [Uploaded ''abc'', Reset] None None)) = None"
    by (simp add: hook_run_def reset_def Let_def stopPolling_def split: option.splits)
  from poll_failure_fails_task_and_stops_polling [OF refl act se]
    poll_failure_fails_task_and_stops_polling [OF refl act se2,
      where evs' = "[Uploaded ''abc'', Reset]" and url' = None and env' = None]
    act se ip cleared
  show ?thesis by blast
qed

text \<open>C10 at a concrete run: while task \<^verbatim>\<open>a\<close> is being polled by timer 1, \<open>startPolling\<close> for
  task \<^verbatim>\<open>b\<close> leaves timer 2 alone.\<close>

theorem at_most_one_polling_timer_witness:
  "map fst (active (poll_timers (startPolling
       (client_run (new_browser None None initial_hook_state) [StartPolling ''a'' hook_callbacks])
       ''b'' hook_callbacks))) = [2]
   \<and> map (fst \<circ> snd) (active (poll_timers (startPolling
       (client_run (new_browser None None initial_hook_state) [StartPolling ''a'' hook_callbacks])
       ''b'' hook_callbacks))) = [''b'']"
proof -
  have "next_handle (poll_timers
          (client_run (new_browser None None initial_hook_state) [StartPolling ''a'' hook_callbacks])) = 2"
    by (simp add: client_run_def new_browser_def new_AudioSeparationAPI_def no_timers_def
        startPolling_def setInterval_def Let_def)
  with at_most_one_polling_timer [of None None initial_hook_state "[StartPolling ''a'' hook_callbacks]"
         "''b''" hook_callbacks]
  show ?thesis by simp
qed


section \<open>Properties of the upload form\<close>

lemma lastIndexOf_from_absent: "c \<notin> set xs \<Longrightarrow> lastIndexOf_from xs c i found = found"
  by (induction xs arbitrary: i) auto

lemma lastIndexOf_from_last:
  "c \<notin> set ys \<Longrightarrow> lastIndexOf_from (xs @ c # ys) c i found = i + int (length xs)"
  by (induction xs arbitrary: i found) (auto simp: lastIndexOf_from_absent)

lemma lastIndexOf_last: "c \<notin> set ys \<Longrightarrow> lastIndexOf (xs @ c # ys) c = int (length xs)"
  by (simp add: lastIndexOf_def lastIndexOf_from_last)

lemma lastIndexOf_absent: "c \<notin> set xs \<Longrightarrow> lastIndexOf xs c = - 1"
  by (simp add: lastIndexOf_def lastIndexOf_from_absent)

lemma endsWith_iff: "endsWith s e = (\<exists>stem. s = stem @ e)"
proof
  assume "endsWith s e"
  then have "s = take (length s - length e) s @ e"
    by (metis append_take_drop_id endsWith_def)
  then show "\<exists>stem. s = stem @ e" ..
next
  assume "\<exists>stem. s = stem @ e"
  then show "endsWith s e" by (auto simp: endsWith_def)
qed

text \<open>Lower-casing goes unit by unit, yields a dot only from a dot, never shortens, and
  lengthens exactly the names that hold a U+0130, where it leaves a U+0307.\<close>

lemma toLowerCase_Nil: "toLowerCase [] = []"
  by (simp add: toLowerCase_def)

lemma toLowerCase_Cons: "toLowerCase (u # s) = lower_unit u @ toLowerCase s"
  by (simp add: toLowerCase_def)

lemma toLowerCase_append: "toLowerCase (s @ t) = toLowerCase s @ toLowerCase t"
  by (simp add: toLowerCase_def)

lemma lower_unit_dot: "(46 \<in> set (lower_unit u)) = (u = 46)"
  by (simp add: lower_unit_def)

lemma toLowerCase_dot: "(46 \<in> set (toLowerCase s)) = (46 \<in> set s)"
  by (induction s) (simp_all add: toLowerCase_Nil toLowerCase_Cons lower_unit_dot)

lemma toLowerCase_length: "length s \<le> length (toLowerCase s)"
  by (induction s) (simp_all add: toLowerCase_Nil toLowerCase_Cons lower_unit_def)

lemma toLowerCase_longer: "0x0130 \<in> set s \<Longrightarrow> length s < length (toLowerCase s)"
proof (induction s)
  case Nil
  then show ?case by simp
next
  case (Cons u s)
  show ?case
  proof (cases "u = 0x0130")
    case True
    then show ?thesis
      using toLowerCase_length [of s] by (simp add: toLowerCase_Cons lower_unit_def)
  next
    case False
    with Cons show ?thesis by (simp add: toLowerCase_Cons lower_unit_def)
  qed
qed

lemma toLowerCase_combining: "0x0130 \<in> set s \<Longrightarrow> 0x0307 \<in> set (toLowerCase s)"
  by (induction s) (auto simp: toLowerCase_Cons lower_unit_def)

lemma toLowerCase_same_length:
  "0x0130 \<notin> set s \<Longrightarrow> length (toLowerCase s) = length s"
  by (induction s) (simp_all add: toLowerCase_Nil toLowerCase_Cons lower_unit_def)

lemma allowedExtensions_shape:
  assumes "e \<in> set allowedExtensions"
  shows "\<exists>rest. e = 46 # rest \<and> 46 \<notin> set rest \<and> 0x0307 \<notin> set rest"
  using assms by (auto simp: allowedExtensions_def units_def)

lemma fileExtension_is_ending: "endsWith (toLowerCase name) (fileExtension name)"
proof -
  have "toLowerCase name =
      take (nat (max 0 (lastIndexOf name (of_char CHR ''.'')))) (toLowerCase name) @ fileExtension name"
    by (simp add: fileExtension_def substring_def)
  then show ?thesis unfolding endsWith_iff ..
qed

text \<open>The extension of a name whose last dot is at the end of \<open>pre\<close>: what lower-casing has
  added to \<open>pre\<close>, the dot, and the lower-cased rest.\<close>

lemma fileExtension_split:
  assumes "46 \<notin> set post"
  shows "fileExtension (pre @ 46 # post)
           = drop (length pre) (toLowerCase pre) @ 46 # toLowerCase post"
proof -
  have "lastIndexOf (pre @ 46 # post) 46 = int (length pre)"
    using assms by (rule lastIndexOf_last)
  moreover have "toLowerCase (pre @ 46 # post) = toLowerCase pre @ 46 # toLowerCase post"
    by (simp add: toLowerCase_append toLowerCase_Cons lower_unit_def)
  ultimately show ?thesis
    using toLowerCase_length [of pre] by (simp add: fileExtension_def substring_def)
qed

lemma fileExtension_no_dot:
  assumes "46 \<notin> set name"
  shows "fileExtension name = toLowerCase name"
  using lastIndexOf_absent [OF assms] by (simp add: fileExtension_def substring_def)

text \<open>An accepted name holds no U+0130.\<close>

lemma accepted_not_lengthened:
  assumes "fileExtension name \<in> set allowedExtensions"
  shows "0x0130 \<notin> set name"
proof -
  from allowedExtensions_shape [OF assms] obtain rest where
    e: "fileExtension name = 46 # rest" and nd: "46 \<notin> set rest" and nc: "0x0307 \<notin> set rest"
    by blast
  have dot: "46 \<in> set name"
  proof (rule ccontr)
    assume "46 \<notin> set name"
    then have "fileExtension name = toLowerCase name" "46 \<notin> set (toLowerCase name)"
      by (simp_all add: fileExtension_no_dot toLowerCase_dot)
    with e show False by simp
  qed
  then obtain pre post where name: "name = pre @ 46 # post" and post: "46 \<notin> set post"
    by (auto dest: split_list_last)
  have x: "drop (length pre) (toLowerCase pre) @ 46 # toLowerCase post = 46 # rest"
    using fileExtension_split [OF post, of pre] e name by simp
  have d: "drop (length pre) (toLowerCase pre) = []"
  proof (cases "drop (length pre) (toLowerCase pre)")
    case Nil
    then show ?thesis .
  next
    case (Cons y ys)
    with x have "rest = ys @ 46 # toLowerCase post" by simp
    with nd show ?thesis by simp
  qed
  with x have r: "rest = toLowerCase post" by simp
  have "0x0130 \<notin> set pre"
    using d toLowerCase_longer [of pre] by auto
  moreover have "0x0130 \<notin> set post"
    using nc r toLowerCase_combining [of post] by auto
  ultimately show ?thesis by (simp add: name)
qed

text \<open>A name without U+0130 whose lower-cased form ends in a dot followed by dot-free
  characters has exactly that ending as its computed extension.\<close>

lemma fileExtension_of_ending:
  assumes "toLowerCase name = stem @ 46 # rest" "46 \<notin> set rest" "0x0130 \<notin> set name"
  shows "fileExtension name = 46 # rest"
proof -
  have "46 \<in> set (toLowerCase name)" by (simp add: assms(1))
  then have "46 \<in> set name" by (simp add: toLowerCase_dot)
  then obtain pre post where name: "name = pre @ 46 # post" and post: "46 \<notin> set post"
    by (auto dest: split_list_last)
  from assms(3) name have "0x0130 \<notin> set pre" by simp
  then have lp: "length (toLowerCase pre) = length pre" by (rule toLowerCase_same_length)
  have ext: "fileExtension name = 46 # toLowerCase post"
    using fileExtension_split [OF post, of pre] lp by (simp add: name)
  have "toLowerCase pre @ 46 # toLowerCase post = stem @ 46 # rest"
    using assms(1) by (simp add: name toLowerCase_append toLowerCase_Cons lower_unit_def)
  moreover have "46 \<notin> set (toLowerCase post)" using post by (simp add: toLowerCase_dot)
  ultimately have "toLowerCase post = rest"
    using assms(2) by (auto simp: append_eq_append_conv2 append_eq_Cons_conv Cons_eq_append_conv)
  with ext show ?thesis by simp
qed

lemma allowed_extension_iff:
  "(fileExtension name \<in> set allowedExtensions)
     = (0x0130 \<notin> set name \<and> list_ex (endsWith (toLowerCase name)) allowedExtensions)"
proof
  assume a: "fileExtension name \<in> set allowedExtensions"
  then have "list_ex (endsWith (toLowerCase name)) allowedExtensions"
    using fileExtension_is_ending [of name] by (auto simp: list_ex_iff)
  with accepted_not_lengthened [OF a]
  show "0x0130 \<notin> set name \<and> list_ex (endsWith (toLowerCase name)) allowedExtensions" by simp
next
  assume "0x0130 \<notin> set name \<and> list_ex (endsWith (toLowerCase name)) allowedExtensions"
  then obtain e where n: "0x0130 \<notin> set name"
    and e: "e \<in> set allowedExtensions" "endsWith (toLowerCase name) e"
    by (auto simp: list_ex_iff)
  from e(2) obtain stem where s: "toLowerCase name = stem @ e"
    by (auto simp: endsWith_iff)
  from allowedExtensions_shape [OF e(1)] obtain rest where r: "e = 46 # rest" "46 \<notin> set rest"
    by blast
  from fileExtension_of_ending [of name stem rest] s r n have "fileExtension name = e" by simp
  with e(1) show "fileExtension name \<in> set allowedExtensions" by simp
qed

text \<open>
  C8. The extension the form computes for a file is in the accepted set exactly when the
  name holds no U+0130 and ends, letters compared without regard to case, in one of
  \<^verbatim>\<open>.wav .mp3 .flac .ogg .m4a\<close>; so a name that does not end in one of the five is never
  accepted. For every selected file that is larger than 50 MB (\<open>50 * 1024 * 1024\<close> bytes) or
  whose extension is not in the set, the handler only raises the alert for the reason it
  meets first: \<^verbatim>\<open>onFileSelect\<close> is not invoked for any file, nothing is asked and no request
  is issued.
\<close>

theorem oversized_or_unsupported_file_rejected:
  "((fileExtension (file_name f) \<in> set allowedExtensions)
       = (0x0130 \<notin> set (file_name f)
          \<and> list_ex (endsWith (toLowerCase (file_name f)))
              [units ''.wav'', units ''.mp3'', units ''.flac'', units ''.ogg'', units ''.m4a'']))
   \<and> (file_size f > 50 * 1024 * 1024 \<or> fileExtension (file_name f) \<notin> set allowedExtensions \<longrightarrow>
        (\<forall>g. OnFileSelect g \<notin> set (handleFileSelect (Some f) shouldContinue))
        \<and> handleFileSelect (Some f) shouldContinue =
            (if file_size f > 50 * 1024 * 1024 then [Alert FileTooLarge] else [Alert UnsupportedFormat]))"
proof (intro conjI impI)
  show "(fileExtension (file_name f) \<in> set allowedExtensions)
       = (0x0130 \<notin> set (file_name f)
          \<and> list_ex (endsWith (toLowerCase (file_name f)))
              [units ''.wav'', units ''.mp3'', units ''.flac'', units ''.ogg'', units ''.m4a''])"
    using allowed_extension_iff [of "file_name f"] unfolding allowedExtensions_def .
next
  assume h: "file_size f > 50 * 1024 * 1024 \<or> fileExtension (file_name f) \<notin> set allowedExtensions"
  then show "handleFileSelect (Some f) shouldContinue =
            (if file_size f > 50 * 1024 * 1024 then [Alert FileTooLarge] else [Alert UnsupportedFormat])"
    by (auto simp: handleFileSelect_def maxSize_def)
  then show "\<forall>g. OnFileSelect g \<notin> set (handleFileSelect (Some f) shouldContinue)"
    by simp
qed

text \<open>C8 at four files: 60 MB of \<^verbatim>\<open>.wav\<close> and 2 MB of \<^verbatim>\<open>.txt\<close> are turned away with their
  alerts; a 2 MB \<^verbatim>\<open>.WAV\<close> has an extension in the set and is handed on; and a 2 MB file whose
  name is U+0130 followed by \<^verbatim>\<open>stanbul.wav\<close>, which ends in \<^verbatim>\<open>.wav\<close>, is turned away: the
  extension computed for it is \<^verbatim>\<open>l.wav\<close>.\<close>

theorem oversized_or_unsupported_file_rejected_witness:
  "file_size \<lparr>file_name = units ''talk.wav'', file_size = 62914560\<rparr> > 50 * 1024 * 1024
   \<and> handleFileSelect (Some \<lparr>file_name = units ''talk.wav'', file_size = 62914560\<rparr>) True
       = [Alert FileTooLarge]
   \<and> fileExtension (file_name \<lparr>file_name = units ''notes.txt'', file_size = 2097152\<rparr>)
       \<notin> set allowedExtensions
   \<and> handleFileSelect (Some \<lparr>file_name = units ''notes.txt'', file_size = 2097152\<rparr>) True
       = [Alert UnsupportedFormat]
   \<and> handleFileSelect (Some \<lparr>file_name = units ''TALK.WAV'', file_size = 2097152\<rparr>) True
       = [OnFileSelect \<lparr>file_name = units ''TALK.WAV'', file_size = 2097152\<rparr>]
   \<and> endsWith (toLowerCase (0x0130 # units ''stanbul.wav'')) (units ''.wav'')
   \<and> fileExtension (0x0130 # units ''stanbul.wav'') = units ''l.wav''
   \<and> handleFileSelect (Some \<lparr>file_name = 0x0130 # units ''stanbul.wav'', file_size = 2097152\<rparr>) True
       = [Alert UnsupportedFormat]"
proof -
  have x1: "fileExtension (units ''notes.txt'') = units ''.txt''"
    by (simp add: fileExtension_def substring_def lastIndexOf_def toLowerCase_def lower_unit_def
        units_def)
  have x2: "fileExtension (units ''TALK.WAV'') = units ''.wav''"
    by (simp add: fileExtension_def substring_def lastIndexOf_def toLowerCase_def lower_unit_def
        units_def)
  have x3: "fileExtension (0x0130 # units ''stanbul.wav'') = units ''l.wav''"
    by (simp add: fileExtension_def substring_def lastIndexOf_def toLowerCase_def lower_unit_def
        units_def)
  have e3: "endsWith (toLowerCase (0x0130 # units ''stanbul.wav'')) (units ''.wav'')"
    by (simp add: endsWith_def toLowerCase_def lower_unit_def units_def)
  have a: "handleFileSelect (Some \<lparr>file_name = units ''talk.wav'', file_size = 62914560\<rparr>) True
       = [Alert FileTooLarge]"
    using oversized_or_unsupported_file_rejected
      [of "\<lparr>file_name = units ''talk.wav'', file_size = 62914560\<rparr>" True]
    by simp
  have n: "fileExtension (file_name \<lparr>file_name = units ''notes.txt'', file_size = 2097152\<rparr>)
       \<notin> set allowedExtensions"
    using x1 by (simp add: allowedExtensions_def units_def)
  have b: "handleFileSelect (Some \<lparr>file_name = units ''notes.txt'', file_size = 2097152\<rparr>) True
       = [Alert UnsupportedFormat]"
    using oversized_or_unsupported_file_rejected
      [of "\<lparr>file_name = units ''notes.txt'', file_size = 2097152\<rparr>" True] n
    by simp
  have c: "handleFileSelect (Some \<lparr>file_name = units ''TALK.WAV'', file_size = 2097152\<rparr>) True
       = [OnFileSelect \<lparr>file_name = units ''TALK.WAV'', file_size = 2097152\<rparr>]"
    by (simp add: handleFileSelect_def x2 allowedExtensions_def maxSize_def, simp add: units_def)
  have d: "handleFileSelect (Some \<lparr>file_name = 0x0130 # units ''stanbul.wav'', file_size = 2097152\<rparr>) True
       = [Alert UnsupportedFormat]"
    using oversized_or_unsupported_file_rejected
      [of "\<lparr>file_name = 0x0130 # units ''stanbul.wav'', file_size = 2097152\<rparr>" True]
    by simp
  from a n b c d e3 x3 show ?thesis by simp
qed

end
